theory Spec2Isabelle
  imports Main "HOL-Library.AList"
begin

section \<open>JavaScript values\<close>

text \<open>
  The client is TypeScript whose payloads are typed \<^verbatim>\<open>any\<close>: every event and response is
  whatever \<^verbatim>\<open>JSON.parse\<close> returned. A JavaScript string is a sequence of UTF-16 code
  units; it is modelled as the list of their numeric values, so that the characters the
  clean-up expressions look for (U+2600 and above, surrogate pairs) can be written down.
  \<open>ustr\<close> turns an ASCII literal of the source into such a string.
\<close>

type_synonym jstring = "nat list"

definition ustr :: "string \<Rightarrow> jstring" where
  "ustr s = map of_char s"

text \<open>
  Values as \<^verbatim>\<open>JSON.parse\<close> produces them, and \<^verbatim>\<open>undefined\<close> for a missing property.
  A number is represented by its canonical text, the string that \<^verbatim>\<open>String\<close> writes
  for it (\<^verbatim>\<open>0\<close>, \<^verbatim>\<open>-3\<close>, \<^verbatim>\<open>0.5\<close>, \<^verbatim>\<open>1e+21\<close>): the program tests numbers for zero and
  for their sign and writes them, and never calculates with a number that it has
  parsed. The text of zero is \<^verbatim>\<open>0\<close>, also for the negative zero, and only the text of
  a negative number starts with the minus sign. The pairs of \<open>JObj\<close> are the object's
  own properties in the order in which \<^verbatim>\<open>Object.entries\<close> enumerates them.
\<close>

datatype jsval =
    JUndefined
  | JNull
  | JBool bool
  | JNum jstring
  | JStr jstring
  | JArr "jsval list"
  | JObj "(jstring \<times> jsval) list"

text \<open>
  The decimal digits of a natural number, and the number value of a natural number: a
  length or a count (below \<open>10^21\<close>, where the canonical text is the digits).
\<close>

fun decimal :: "nat \<Rightarrow> jstring" where
  "decimal n = (if n < 10 then [48 + n] else decimal (n div 10) @ [48 + n mod 10])"

definition num :: "nat \<Rightarrow> jsval" where
  "num n = JNum (decimal n)"

datatype js_error = TypeError | SyntaxError

text \<open>Truthiness (\<^verbatim>\<open>!!v\<close>), and the operators \<^verbatim>\<open>a || b\<close>, \<^verbatim>\<open>a && b\<close>, \<^verbatim>\<open>a ?? b\<close>.\<close>

fun truthy :: "jsval \<Rightarrow> bool" where
  "truthy JUndefined = False"
| "truthy JNull = False"
| "truthy (JBool b) = b"
| "truthy (JNum t) = (t \<noteq> [48])"
| "truthy (JStr s) = (s \<noteq> [])"
| "truthy (JArr xs) = True"
| "truthy (JObj kvs) = True"

fun nullish :: "jsval \<Rightarrow> bool" where
  "nullish JUndefined = True"
| "nullish JNull = True"
| "nullish v = False"

definition js_or :: "jsval \<Rightarrow> jsval \<Rightarrow> jsval" where
  "js_or a b = (if truthy a then a else b)"

definition js_and :: "jsval \<Rightarrow> jsval \<Rightarrow> jsval" where
  "js_and a b = (if truthy a then b else a)"

definition js_coalesce :: "jsval \<Rightarrow> jsval \<Rightarrow> jsval" where
  "js_coalesce a b = (if nullish a then b else a)"

text \<open>
  Property read \<^verbatim>\<open>v.k\<close> on a value that is neither \<^verbatim>\<open>null\<close> nor \<^verbatim>\<open>undefined\<close>. An
  object yields its own property, an array and a string yield their \<^verbatim>\<open>length\<close>. The
  property names the program reads (\<^verbatim>\<open>type\<close>, \<^verbatim>\<open>content\<close>, \<^verbatim>\<open>result\<close>, \<^verbatim>\<open>status\<close>, ...)
  are neither inherited prototype members nor array indices, so every other read
  yields \<^verbatim>\<open>undefined\<close>.
\<close>

fun js_prop :: "jsval \<Rightarrow> jstring \<Rightarrow> jsval" where
  "js_prop (JObj kvs) k = (case map_of kvs k of Some v \<Rightarrow> v | None \<Rightarrow> JUndefined)"
| "js_prop (JArr xs) k = (if k = ustr ''length'' then num (length xs) else JUndefined)"
| "js_prop (JStr s) k = (if k = ustr ''length'' then num (length s) else JUndefined)"
| "js_prop v k = JUndefined"

text \<open>\<^verbatim>\<open>v.k\<close> raises a TypeError on \<^verbatim>\<open>null\<close> and \<^verbatim>\<open>undefined\<close>; \<^verbatim>\<open>v?.k\<close> yields \<^verbatim>\<open>undefined\<close> there.\<close>

definition js_get :: "jsval \<Rightarrow> jstring \<Rightarrow> js_error + jsval" where
  "js_get v k = (if nullish v then Inl TypeError else Inr (js_prop v k))"

definition js_opt :: "jsval \<Rightarrow> jstring \<Rightarrow> jsval" where
  "js_opt v k = (if nullish v then JUndefined else js_prop v k)"

section \<open>Character classes of the regular expressions\<close>

text \<open>
  \<^verbatim>\<open>\w\<close> is \<^verbatim>\<open>[A-Za-z0-9_]\<close>, \<^verbatim>\<open>\d\<close> is \<^verbatim>\<open>[0-9]\<close>, and \<^verbatim>\<open>\s\<close> is the white space and
  line terminators of ECMAScript, which are also what \<^verbatim>\<open>trim\<close> removes.
\<close>

definition is_word :: "nat \<Rightarrow> bool" where
  "is_word c \<longleftrightarrow> (48 \<le> c \<and> c \<le> 57) \<or> (65 \<le> c \<and> c \<le> 90) \<or> c = 95 \<or> (97 \<le> c \<and> c \<le> 122)"

definition upper_ascii :: "nat \<Rightarrow> nat" where
  "upper_ascii c = (if 97 \<le> c \<and> c \<le> 122 then c - 32 else c)"

definition is_digit :: "nat \<Rightarrow> bool" where
  "is_digit c \<longleftrightarrow> 48 \<le> c \<and> c \<le> 57"

definition is_space :: "nat \<Rightarrow> bool" where
  "is_space c \<longleftrightarrow>
     (9 \<le> c \<and> c \<le> 13) \<or> c = 32 \<or> c = 160 \<or> c = 5760 \<or> (8192 \<le> c \<and> c \<le> 8202)
     \<or> c = 8232 \<or> c = 8233 \<or> c = 8239 \<or> c = 8287 \<or> c = 12288 \<or> c = 65279"

definition trim :: "jstring \<Rightarrow> jstring" where
  "trim s = rev (dropWhile is_space (rev (dropWhile is_space s)))"

section \<open>Conversions of JavaScript values\<close>

fun join_with :: "jstring \<Rightarrow> jstring list \<Rightarrow> jstring" where
  "join_with sep [] = []"
| "join_with sep [s] = s"
| "join_with sep (s # t # ss) = s @ sep @ join_with sep (t # ss)"

text \<open>The results of a list of conversions, or the first error among them.\<close>

fun first_error :: "(js_error + 'a) list \<Rightarrow> js_error + 'a list" where
  "first_error [] = Inr []"
| "first_error (Inl e # rs) = Inl e"
| "first_error (Inr x # rs) = (case first_error rs of Inl e \<Rightarrow> Inl e | Inr xs \<Rightarrow> Inr (x # xs))"

text \<open>
  \<^verbatim>\<open>String(v)\<close>, which is also the conversion of a template literal. An array is the
  comma-separated list of its elements, with \<^verbatim>\<open>null\<close> and \<^verbatim>\<open>undefined\<close> written as
  nothing. An object parsed from JSON is \<^verbatim>\<open>[object Object]\<close>, unless it has a property
  \<^verbatim>\<open>toString\<close> of its own: no value that JSON can give it is a function, the inherited
  \<^verbatim>\<open>valueOf\<close> returns the object itself, and the conversion raises a TypeError.
\<close>

fun js_String :: "jsval \<Rightarrow> js_error + jstring" where
  "js_String JUndefined = Inr (ustr ''undefined'')"
| "js_String JNull = Inr (ustr ''null'')"
| "js_String (JBool b) = Inr (if b then ustr ''true'' else ustr ''false'')"
| "js_String (JNum t) = Inr t"
| "js_String (JStr s) = Inr s"
| "js_String (JArr xs) =
     (case first_error (map (\<lambda>x. if nullish x then Inr [] else js_String x) xs) of
        Inl e \<Rightarrow> Inl e
      | Inr ss \<Rightarrow> Inr (join_with [44] ss))"
| "js_String (JObj kvs) =
     (if ustr ''toString'' \<in> fst ` set kvs then Inl TypeError
      else Inr (ustr ''[object Object]''))"

text \<open>
  The values whose conversion to a string does not raise: no object with a property
  \<^verbatim>\<open>toString\<close> of its own is reached through the elements of arrays.
\<close>

fun stringable :: "jsval \<Rightarrow> bool" where
  "stringable (JObj kvs) = (ustr ''toString'' \<notin> fst ` set kvs)"
| "stringable (JArr xs) = list_all (\<lambda>x. nullish x \<or> stringable x) xs"
| "stringable v = True"

text \<open>
  The own enumerable properties of a value, as the object spread \<^verbatim>\<open>{...v}\<close> copies
  them: the properties of an object, the indexed elements of an array, the indexed
  characters of a string, and nothing for the other values. \<^verbatim>\<open>Object.entries(v)\<close>
  lists the same pairs, and raises a TypeError on \<^verbatim>\<open>null\<close> and \<^verbatim>\<open>undefined\<close>.
\<close>

fun own_entries :: "jsval \<Rightarrow> (jstring \<times> jsval) list" where
  "own_entries (JObj kvs) = kvs"
| "own_entries (JArr xs) = zip (map decimal [0..<length xs]) xs"
| "own_entries (JStr s) = zip (map decimal [0..<length s]) (map (\<lambda>c. JStr [c]) s)"
| "own_entries v = []"

definition Object_entries :: "jsval \<Rightarrow> js_error + (jstring \<times> jsval) list" where
  "Object_entries v = (if nullish v then Inl TypeError else Inr (own_entries v))"

text \<open>
  The comparison \<^verbatim>\<open>v > 0\<close>. A string is compared through the number it converts to
  (\<^verbatim>\<open>StringToNumber\<close>), so \<open>string_gt0\<close> says whether that number is greater than 0. White
  space around the literal is ignored. A literal with the prefix \<^verbatim>\<open>0x\<close>, \<^verbatim>\<open>0o\<close> or \<^verbatim>\<open>0b\<close>
  and digits of that base, without a sign, is positive when one of its digits is not
  0. A decimal literal has an optional sign and is \<^verbatim>\<open>Infinity\<close> or digits, a point
  with digits, or both, with an optional exponent; it is positive when it has no minus
  sign and its value rounds to a positive number, that is, exceeds \<open>2^-1075\<close>, half of
  the least positive number. Everything else is \<^verbatim>\<open>NaN\<close> or not positive.
\<close>

definition digits_value :: "jstring \<Rightarrow> int" where
  "digits_value ds = foldl (\<lambda>acc c. 10 * acc + (int c - 48)) 0 ds"

definition is_hex_digit :: "nat \<Rightarrow> bool" where
  "is_hex_digit c \<longleftrightarrow> (48 \<le> c \<and> c \<le> 57) \<or> (65 \<le> c \<and> c \<le> 70) \<or> (97 \<le> c \<and> c \<le> 102)"

text \<open>The exponent part \<^verbatim>\<open>e\<close>, \<^verbatim>\<open>E\<close> with a signed integer; nothing is the exponent 0.\<close>

definition exponent_part :: "jstring \<Rightarrow> int option" where
  "exponent_part r =
     (case r of
        [] \<Rightarrow> Some 0
      | c # ds \<Rightarrow>
          if c = 101 \<or> c = 69 then
            (case ds of
               [] \<Rightarrow> None
             | d # ds' \<Rightarrow>
                 if (d = 43 \<or> d = 45) \<and> ds' \<noteq> [] \<and> list_all is_digit ds'
                 then Some (if d = 45 then - digits_value ds' else digits_value ds')
                 else if list_all is_digit ds then Some (digits_value ds)
                 else None)
          else None)"

text \<open>
  The mantissa \<open>m\<close> and the decimal exponent \<open>e\<close> of an unsigned decimal literal, whose
  value is \<open>m * 10^e\<close>; \<open>None\<close> when the text is not such a literal.
\<close>

definition unsigned_decimal :: "jstring \<Rightarrow> (int \<times> int) option" where
  "unsigned_decimal u =
     (let whole = takeWhile is_digit u;
          r1 = dropWhile is_digit u;
          has_point = (r1 \<noteq> [] \<and> hd r1 = 46);
          frac = (if has_point then takeWhile is_digit (tl r1) else []);
          r2 = (if has_point then dropWhile is_digit (tl r1) else r1)
      in if whole = [] \<and> frac = [] then None
         else (case exponent_part r2 of
                 None \<Rightarrow> None
               | Some x \<Rightarrow> Some (digits_value (whole @ frac), x - int (length frac))))"

definition rounds_positive :: "int \<Rightarrow> int \<Rightarrow> bool" where
  "rounds_positive m e =
     (if e \<ge> 0 then m > 0 else m * 2 ^ 1075 > 10 ^ nat (- e))"

definition unsigned_gt0 :: "jstring \<Rightarrow> bool" where
  "unsigned_gt0 u =
     (if u = ustr ''Infinity'' then True
      else (case unsigned_decimal u of None \<Rightarrow> False | Some (m, e) \<Rightarrow> rounds_positive m e))"

definition string_gt0 :: "jstring \<Rightarrow> bool" where
  "string_gt0 s =
     (case trim s of
        [] \<Rightarrow> False
      | c # r \<Rightarrow>
          if c = 48 \<and> r \<noteq> [] \<and> (hd r = 120 \<or> hd r = 88) then
            tl r \<noteq> [] \<and> list_all is_hex_digit (tl r) \<and> list_ex (\<lambda>d. d \<noteq> 48) (tl r)
          else if c = 48 \<and> r \<noteq> [] \<and> (hd r = 111 \<or> hd r = 79) then
            tl r \<noteq> [] \<and> list_all (\<lambda>d. 48 \<le> d \<and> d \<le> 55) (tl r) \<and> list_ex (\<lambda>d. d \<noteq> 48) (tl r)
          else if c = 48 \<and> r \<noteq> [] \<and> (hd r = 98 \<or> hd r = 66) then
            tl r \<noteq> [] \<and> list_all (\<lambda>d. d = 48 \<or> d = 49) (tl r) \<and> list_ex (\<lambda>d. d \<noteq> 48) (tl r)
          else if c = 45 then False
          else if c = 43 then unsigned_gt0 r
          else unsigned_gt0 (c # r))"

text \<open>
  A number is positive when its text is neither \<^verbatim>\<open>0\<close> nor starts with the minus sign;
  \<^verbatim>\<open>undefined\<close> is \<^verbatim>\<open>NaN\<close>, \<^verbatim>\<open>null\<close> is 0, \<^verbatim>\<open>true\<close> is 1. An array or an object is first
  converted to a string, which may raise.
\<close>

fun js_gt0 :: "jsval \<Rightarrow> js_error + bool" where
  "js_gt0 JUndefined = Inr False"
| "js_gt0 JNull = Inr False"
| "js_gt0 (JBool b) = Inr b"
| "js_gt0 (JNum t) = Inr (t \<noteq> [48] \<and> (t = [] \<or> hd t \<noteq> 45))"
| "js_gt0 (JStr s) = Inr (string_gt0 s)"
| "js_gt0 v = (case js_String v of Inl e \<Rightarrow> Inl e | Inr s \<Rightarrow> Inr (string_gt0 s))"

section \<open>Grouping of thinking items (AgentThinkingAccordion)\<close>

text \<open>
  \<^verbatim>\<open>type EventItem = { type: string; content: string } | string\<close>. The display type of
  an item replaces every underscore of its type by a space and puts the first letter of
  every word in upper case (\<^verbatim>\<open>/\b\w/g\<close>: a word character that no word character
  precedes); a bare string and an item with an empty type display as 'Agent Thinking'.
\<close>

datatype EventItem = ItemObj (item_type: jstring) (item_content: jstring) | ItemStr jstring

fun capitalize_words :: "bool \<Rightarrow> jstring \<Rightarrow> jstring" where
  "capitalize_words prev [] = []"
| "capitalize_words prev (c # cs) =
     (if is_word c \<and> \<not> prev then upper_ascii c else c) # capitalize_words (is_word c) cs"

definition title_case :: "jstring \<Rightarrow> jstring" where
  "title_case s = capitalize_words False (map (\<lambda>c. if c = 95 then 32 else c) s)"

fun getEventType :: "EventItem \<Rightarrow> jstring" where
  "getEventType (ItemStr s) = ustr ''Agent Thinking''"
| "getEventType (ItemObj t c) = (if t \<noteq> [] then title_case t else ustr ''Agent Thinking'')"

fun getEventContent :: "EventItem \<Rightarrow> jstring" where
  "getEventContent (ItemStr s) = s"
| "getEventContent (ItemObj t c) = c"

text \<open>
  The loop of \<^verbatim>\<open>groupedThinking\<close>, with its two variables \<^verbatim>\<open>groups\<close> and
  \<^verbatim>\<open>currentGroup\<close>: an item joins the current group when its display type is that of
  the group's first item, and otherwise closes it and starts the next one.
\<close>

fun group_loop ::
  "EventItem list \<Rightarrow> EventItem list list \<Rightarrow> EventItem list \<Rightarrow> EventItem list list \<times> EventItem list"
where
  "group_loop [] groups currentGroup = (groups, currentGroup)"
| "group_loop (item # rest) groups currentGroup =
     (case currentGroup of
        [] \<Rightarrow> group_loop rest groups [item]
      | first # _ \<Rightarrow>
          if getEventType item = getEventType first
          then group_loop rest groups (currentGroup @ [item])
          else group_loop rest (groups @ [currentGroup]) [item])"

definition groupedThinking :: "EventItem list \<Rightarrow> EventItem list list" where
  "groupedThinking aggregatedThinking =
     (case group_loop aggregatedThinking [] [] of
        (groups, currentGroup) \<Rightarrow>
          if length currentGroup > 0 then groups @ [currentGroup] else groups)"


text \<open>Notions for the properties of the grouping.\<close>

definition homogeneous :: "EventItem list \<Rightarrow> bool" where
  "homogeneous g \<longleftrightarrow> (\<forall>a\<in>set g. \<forall>b\<in>set g. getEventType a = getEventType b)"

fun adjacent_differ :: "EventItem list list \<Rightarrow> bool" where
  "adjacent_differ (g # h # r) =
     (getEventType (hd g) \<noteq> getEventType (hd h) \<and> adjacent_differ (h # r))"
| "adjacent_differ gs = True"

definition closed_groups :: "EventItem list list \<Rightarrow> bool" where
  "closed_groups gs \<longleftrightarrow> (\<forall>g\<in>set gs. g \<noteq> [] \<and> homogeneous g) \<and> adjacent_differ gs"

definition finish :: "EventItem list list \<times> EventItem list \<Rightarrow> EventItem list list" where
  "finish p = (case p of (groups, cur) \<Rightarrow> if length cur > 0 then groups @ [cur] else groups)"

section \<open>Normalising the shapes of a company (SourcingAgent)\<close>

text \<open>
  \<^verbatim>\<open>getRiskScores\<close>: the \<^verbatim>\<open>risk_scores\<close> array when there is a non-empty one, and
  otherwise one record for every entry of \<^verbatim>\<open>parameter_analysis\<close> (or
  \<^verbatim>\<open>parameterAnalysis\<close>). \<open>risk_record\<close> is the arrow function mapped over the entries.
\<close>

definition risk_record :: "jstring \<times> jsval \<Rightarrow> jsval" where
  "risk_record e =
     (case e of (category, val) \<Rightarrow>
        JObj [(ustr ''category'', JStr category),
              (ustr ''status'',
                 js_coalesce (js_coalesce (js_coalesce (js_opt val (ustr ''status''))
                    (js_opt val (ustr ''Status''))) (js_opt val (ustr ''status_text''))) (JStr [])),
              (ustr ''reason'',
                 js_coalesce (js_coalesce (js_coalesce (js_opt val (ustr ''reason''))
                    (js_opt val (ustr ''Reason''))) (js_opt val (ustr ''reason_text''))) (JStr []))])"

definition is_nonempty_array :: "jsval \<Rightarrow> bool" where
  "is_nonempty_array v = (case v of JArr xs \<Rightarrow> length xs > 0 | _ \<Rightarrow> False)"

definition getRiskScores :: "jsval \<Rightarrow> js_error + jsval" where
  "getRiskScores company =
     (if \<not> truthy company then Inr (JArr [])
      else if is_nonempty_array (js_prop company (ustr ''risk_scores''))
      then Inr (js_prop company (ustr ''risk_scores''))
      else
        let pa = js_or (js_or (js_prop company (ustr ''parameter_analysis''))
                   (js_prop company (ustr ''parameterAnalysis''))) (JObj [])
        in case Object_entries (js_or pa (JObj [])) of
             Inl e \<Rightarrow> Inl e
           | Inr entries \<Rightarrow> Inr (JArr (map risk_record entries)))"

definition getOverall :: "jsval \<Rightarrow> jsval" where
  "getOverall company =
     js_or (js_or (js_or (js_or (js_or (js_opt company (ustr ''overall_result''))
       (js_opt company (ustr ''overallResult''))) (js_opt company (ustr ''overall_status'')))
       (js_opt company (ustr ''overallStatus''))) (js_opt company (ustr ''overall''))) (JStr [])"

section \<open>Cleaning the content of a streamed event\<close>


text \<open>
  \<^verbatim>\<open>/^STEP\s*\d+:\s*/i\<close>: the four letters in either case, white space, at least one
  digit, a colon (58), white space. White space, digits and the colon exclude each
  other, so the greedy match is the only one.
\<close>

definition step_word :: "nat \<Rightarrow> nat \<Rightarrow> nat \<Rightarrow> nat \<Rightarrow> bool" where
  "step_word c1 c2 c3 c4 \<longleftrightarrow>
     (c1 = 83 \<or> c1 = 115) \<and> (c2 = 84 \<or> c2 = 116) \<and> (c3 = 69 \<or> c3 = 101) \<and> (c4 = 80 \<or> c4 = 112)"

definition strip_number_label :: "jstring \<Rightarrow> jstring option" where
  "strip_number_label r =
     (case dropWhile is_digit r of
        [] \<Rightarrow> None
      | c # rest \<Rightarrow> if takeWhile is_digit r \<noteq> [] \<and> c = 58 then Some (dropWhile is_space rest) else None)"










text \<open>
  The clean-up of the screening handler is a different one: one character of a fixed
  class (the code units between the brackets of the source's expression) and the white
  space after it, then \<^verbatim>\<open>/^STEP \d+:\s*/i\<close> with exactly one space, then \<^verbatim>\<open>trim\<close>.
\<close>

definition screening_markers :: "nat list" where
  "screening_markers =
     [143, 164, 167, 168, 173, 179, 184, 226, 239, 240, 339, 352, 353, 376,
      8211, 8217, 8220, 8221, 8230, 8249, 8482]"

definition strip_marker :: "jstring \<Rightarrow> jstring" where
  "strip_marker s =
     (case s of [] \<Rightarrow> s | c # r \<Rightarrow> if c \<in> set screening_markers then dropWhile is_space r else s)"

definition strip_step_space :: "jstring \<Rightarrow> jstring" where
  "strip_step_space s =
     (case s of
        c1 # c2 # c3 # c4 # c5 # r \<Rightarrow>
          if step_word c1 c2 c3 c4 \<and> c5 = 32
          then (case strip_number_label r of Some t \<Rightarrow> t | None \<Rightarrow> s)
          else s
      | _ \<Rightarrow> s)"

definition clean_screening_text :: "jstring \<Rightarrow> jstring" where
  "clean_screening_text content = trim (strip_step_space (strip_marker content))"



section \<open>The state of the wizard (SourcingAgent)\<close>

text \<open>
  The \<^verbatim>\<open>useState\<close> and \<^verbatim>\<open>useRef\<close> cells of the component that its handlers read and
  write, and the three parameter lists it derives from the router's state (arrays:
  \<^verbatim>\<open>toDisplayArray\<close> returns one for every input). The responses are \<^verbatim>\<open>any\<close>, initially
  \<^verbatim>\<open>null\<close>. The records indexed by step number are functions from the index; every
  read of \<^verbatim>\<open>streamedEventsByStep\<close> and \<^verbatim>\<open>aggregatedThinkingByStep\<close> in a handler is of
  the form \<^verbatim>\<open>prev[k] || []\<close>, so the empty list also stands for a missing key, and
  \<open>False\<close> stands for a missing key of the two selection records.

  Two cells are not React state. \<open>ws_closed k\<close> says that \<^verbatim>\<open>ws.close()\<close> has been called
  on the socket that the handler of step \<open>k\<close> opened, and \<open>agentThinkingSteps\<close> is the
  array of that name in the closure of \<^verbatim>\<open>handleScreenCompanies\<close>. Toasts, console output
  and scrolling are not modelled.
\<close>

record agent_state =
  sourcingList :: "jsval list"
  screeningList :: "jsval list"
  riskAnalysisList :: "jsval list"
  currentStep :: int
  completedSteps :: "int set"
  selectedCompanies :: "int \<Rightarrow> bool"
  isSubmitting :: bool
  filterResponse :: jsval
  screeningResponse :: jsval
  riskAnalysisResponse :: jsval
  reportResponse :: jsval
  reportFilePath :: jsval
  expandedScreeningResults :: "int \<Rightarrow> bool"
  streamedEventsByStep :: "int \<Rightarrow> jsval list"
  showStreamingPanel :: bool
  showAccordionStep :: "int option"
  aggregatedThinkingByStep :: "int \<Rightarrow> jsval list"
  lastProcessedStreamingCountByStep :: "int \<Rightarrow> nat"
  ws_closed :: "int \<Rightarrow> bool"
  agentThinkingSteps :: "jstring list"

text \<open>The initial values of the cells, for given parameter lists.\<close>

definition initial_state :: "jsval list \<Rightarrow> jsval list \<Rightarrow> jsval list \<Rightarrow> agent_state" where
  "initial_state sourcing screening risk =
     \<lparr>sourcingList = sourcing, screeningList = screening, riskAnalysisList = risk,
      currentStep = 0, completedSteps = {}, selectedCompanies = (\<lambda>_. False),
      isSubmitting = False, filterResponse = JNull, screeningResponse = JNull,
      riskAnalysisResponse = JNull, reportResponse = JNull, reportFilePath = JNull,
      expandedScreeningResults = (\<lambda>_. False), streamedEventsByStep = (\<lambda>_. []),
      showStreamingPanel = False, showAccordionStep = None,
      aggregatedThinkingByStep = (\<lambda>_. []), lastProcessedStreamingCountByStep = (\<lambda>_. 0),
      ws_closed = (\<lambda>_. False), agentThinkingSteps = []\<rparr>"

subsection \<open>Step gating\<close>

text \<open>
  \<^verbatim>\<open>l && r\<close> where the left operand has been evaluated: an exception of the left
  operand is the result, a falsy left value is the result, and otherwise the right
  operand is evaluated and is the result.
\<close>

definition js_and_r :: "js_error + jsval \<Rightarrow> js_error + jsval \<Rightarrow> js_error + jsval" where
  "js_and_r l r = (case l of Inl e \<Rightarrow> Inl e | Inr a \<Rightarrow> if truthy a then r else Inr a)"

definition length_gt0 :: "jsval \<Rightarrow> js_error + jsval" where
  "length_gt0 v =
     (case js_gt0 (js_prop v (ustr ''length'')) of Inl e \<Rightarrow> Inl e | Inr b \<Rightarrow> Inr (JBool b))"

text \<open>
  \<^verbatim>\<open>canProceedStep\<close> returns the value of a chain of \<^verbatim>\<open>&&\<close>, which is the first falsy
  operand or else the last one, the comparison \<^verbatim>\<open>list.length > 0\<close>. Every property read
  of the chain is guarded by the truthiness of its base, so none raises; the
  comparison raises when the length is an object that does not convert.
\<close>

definition canProceedStep :: "agent_state \<Rightarrow> js_error + jsval" where
  "canProceedStep s =
     (if currentStep s = 0 then
        js_and_r (js_and_r (js_and_r (Inr (filterResponse s))
            (Inr (js_prop (filterResponse s) (ustr ''companies''))))
            (Inr (js_prop (js_prop (filterResponse s) (ustr ''companies'')) (ustr ''qualified''))))
          (length_gt0 (js_prop (js_prop (filterResponse s) (ustr ''companies'')) (ustr ''qualified'')))
      else if currentStep s = 1 then
        js_and_r (js_and_r (Inr (screeningResponse s))
            (Inr (js_prop (screeningResponse s) (ustr ''company_details''))))
          (length_gt0 (js_prop (screeningResponse s) (ustr ''company_details'')))
      else if currentStep s = 2 then
        js_and_r (js_and_r (Inr (riskAnalysisResponse s))
            (Inr (js_prop (riskAnalysisResponse s) (ustr ''all_companies''))))
          (length_gt0 (js_prop (riskAnalysisResponse s) (ustr ''all_companies'')))
      else if currentStep s = 3 then Inr (JBool True)
      else Inr (JBool False))"

definition canNavigateToStep :: "agent_state \<Rightarrow> int \<Rightarrow> jsval" where
  "canNavigateToStep s index =
     (if index = 0 then JBool True
      else if index = 1 then
        js_and (JBool (length (sourcingList s) > 0))
          (js_opt (js_opt (filterResponse s) (ustr ''companies'')) (ustr ''qualified''))
      else if index = 2 then
        js_and (JBool (length (screeningList s) > 0))
          (js_opt (screeningResponse s) (ustr ''company_details''))
      else if index = 3 then
        js_and (JBool (length (riskAnalysisList s) > 0))
          (js_opt (riskAnalysisResponse s) (ustr ''all_companies''))
      else JBool False)"




subsection \<open>Resetting a step\<close>

definition resetScreening :: "agent_state \<Rightarrow> agent_state" where
  "resetScreening s =
     s\<lparr>screeningResponse := JNull, expandedScreeningResults := (\<lambda>_. False),
       selectedCompanies := (\<lambda>_. False)\<rparr>"

definition resetRiskAnalysis :: "agent_state \<Rightarrow> agent_state" where
  "resetRiskAnalysis s = s\<lparr>riskAnalysisResponse := JNull\<rparr>"

definition handleResetStep :: "int \<Rightarrow> agent_state \<Rightarrow> agent_state" where
  "handleResetStep index s =
     (let s' =
        (if index = 0 then
           s\<lparr>filterResponse := JNull, screeningResponse := JNull, riskAnalysisResponse := JNull,
             reportResponse := JNull, reportFilePath := JNull, isSubmitting := False,
             showStreamingPanel := False, streamedEventsByStep := (\<lambda>_. []),
             selectedCompanies := (\<lambda>_. False), expandedScreeningResults := (\<lambda>_. False),
             completedSteps := completedSteps s - {0} - {1} - {2} - {3}\<rparr>
         else if index = 1 then
           (resetScreening s)
            \<lparr>riskAnalysisResponse := JNull, reportResponse := JNull, reportFilePath := JNull,
             showStreamingPanel := False,
             streamedEventsByStep := (streamedEventsByStep s)(1 := [], 2 := [], 3 := []),
             completedSteps := completedSteps s - {1} - {2} - {3}\<rparr>
         else if index = 2 then
           (resetRiskAnalysis s)
            \<lparr>reportResponse := JNull, reportFilePath := JNull, showStreamingPanel := False,
             streamedEventsByStep := (streamedEventsByStep s)(2 := [], 3 := []),
             completedSteps := completedSteps s - {2} - {3}\<rparr>
         else s)
      in s'\<lparr>currentStep := index, showAccordionStep := None\<rparr>)"

section \<open>The WebSocket handlers (SourcingAgent)\<close>

text \<open>
  A message handler starts with \<^verbatim>\<open>JSON.parse(event.data)\<close>, which either raises a
  SyntaxError or yields a value. The handlers of sourcing and screening have no
  \<^verbatim>\<open>try\<close>: an exception leaves the handler, and the state updates made before it stay.
  The handlers of risk analysis and report generation catch every exception. The
  result of a handler is the exception that left it, if any, and the new state.
\<close>

datatype parse_result = ParseFailure | Parsed jsval

definition append_event :: "int \<Rightarrow> jsval \<Rightarrow> agent_state \<Rightarrow> agent_state" where
  "append_event k eventData s =
     s\<lparr>streamedEventsByStep :=
         (streamedEventsByStep s)(k := streamedEventsByStep s k @ [eventData])\<rparr>"

definition total_tokens_or_0 :: "jsval \<Rightarrow> jsval" where
  "total_tokens_or_0 tokens_used =
     js_or (js_opt (js_opt tokens_used (ustr ''totals'')) (ustr ''total_tokens'')) (num 0)"

text \<open>
  The count that the success toast of sourcing shows,
  \<^verbatim>\<open>${eventData.result.qualified?.length || 0}\<close>. The template literal converts it to
  a string, which may raise; \<^verbatim>\<open>ws.close()\<close> comes after the toast.
\<close>

definition sourced_count :: "jsval \<Rightarrow> jsval" where
  "sourced_count eventData =
     js_or (js_opt (js_prop (js_prop eventData (ustr ''result'')) (ustr ''qualified''))
              (ustr ''length'')) (num 0)"

definition handleSourceCompanies_onmessage ::
  "parse_result \<Rightarrow> agent_state \<Rightarrow> js_error option \<times> agent_state" where
  "handleSourceCompanies_onmessage p s =
     (case p of
        ParseFailure \<Rightarrow> (Some SyntaxError, s)
      | Parsed eventData \<Rightarrow>
          let s1 = append_event 0 eventData s in
          if nullish eventData then (Some TypeError, s1)
          else if js_prop eventData (ustr ''type'') = JStr (ustr ''analysis_complete'')
                  \<and> truthy (js_prop eventData (ustr ''result''))
          then
            let transformedResponse =
              JObj [(ustr ''companies'',
                JObj [(ustr ''qualified'',
                         js_or (js_prop (js_prop eventData (ustr ''result'')) (ustr ''qualified''))
                           (JArr [])),
                      (ustr ''tokens'',
                         JObj [(ustr ''totals'',
                           JObj [(ustr ''total_tokens'',
                             total_tokens_or_0 (js_prop eventData (ustr ''tokens_used'')))])])])];
                s2 = s1\<lparr>filterResponse := transformedResponse,
                        completedSteps := insert 0 (completedSteps s1),
                        showStreamingPanel := False\<rparr>
            in (case js_String (sourced_count eventData) of
                  Inl e \<Rightarrow> (Some e, s2)
                | Inr text \<Rightarrow> (None, s2\<lparr>ws_closed := (ws_closed s2)(0 := True)\<rparr>))
          else (None, s1))"

definition handleSourceCompanies_onerror :: "agent_state \<Rightarrow> agent_state" where
  "handleSourceCompanies_onerror s = s\<lparr>showStreamingPanel := False\<rparr>"

definition handleSourceCompanies_onclose :: "agent_state \<Rightarrow> agent_state" where
  "handleSourceCompanies_onclose s = s\<lparr>showStreamingPanel := False, isSubmitting := False\<rparr>"

text \<open>
  The screening handler also collects the cleaned content of every event that has a
  type and a string content, and puts the collection into the response as
  \<^verbatim>\<open>agent_thinking\<close>. The response is the object spread of the event's content with the
  two properties \<^verbatim>\<open>agent_thinking\<close> and \<^verbatim>\<open>tokens_used\<close> set.
\<close>

definition collect_thinking :: "jsval \<Rightarrow> agent_state \<Rightarrow> agent_state" where
  "collect_thinking eventData s =
     (if truthy (js_prop eventData (ustr ''type'')) \<and> truthy (js_prop eventData (ustr ''content''))
      then (case js_or (js_prop eventData (ustr ''content'')) (JStr []) of
              JStr content \<Rightarrow>
                if content \<noteq> [] \<and> clean_screening_text content \<noteq> []
                then s\<lparr>agentThinkingSteps := agentThinkingSteps s @ [clean_screening_text content]\<rparr>
                else s
            | _ \<Rightarrow> s)
      else s)"

definition handleScreenCompanies_onmessage ::
  "parse_result \<Rightarrow> agent_state \<Rightarrow> js_error option \<times> agent_state" where
  "handleScreenCompanies_onmessage p s =
     (case p of
        ParseFailure \<Rightarrow> (Some SyntaxError, s)
      | Parsed eventData \<Rightarrow>
          let s1 = append_event 1 eventData s in
          if nullish eventData then (Some TypeError, s1)
          else
            let s2 = collect_thinking eventData s1 in
            if js_prop eventData (ustr ''type'') = JStr (ustr ''final_result'')
               \<and> truthy (js_prop eventData (ustr ''content''))
            then
              let content = js_prop eventData (ustr ''content'');
                  responseWithThinking =
                    JObj (AList.update (ustr ''tokens_used'')
                            (total_tokens_or_0 (js_prop content (ustr ''tokens_used'')))
                         (AList.update (ustr ''agent_thinking'')
                            (JArr (map JStr (agentThinkingSteps s2)))
                            (own_entries content)))
              in (None,
                  s2\<lparr>screeningResponse := responseWithThinking,
                     expandedScreeningResults := (\<lambda>i. i = 0),
                     completedSteps := insert 1 (completedSteps s2),
                     showStreamingPanel := False,
                     ws_closed := (ws_closed s2)(1 := True)\<rparr>)
            else (None, s2))"

definition handleScreenCompanies_onerror :: "agent_state \<Rightarrow> agent_state" where
  "handleScreenCompanies_onerror s = s\<lparr>showStreamingPanel := False\<rparr>"

definition handleScreenCompanies_onclose :: "agent_state \<Rightarrow> agent_state" where
  "handleScreenCompanies_onclose s = s\<lparr>showStreamingPanel := False, isSubmitting := False\<rparr>"

text \<open>
  The risk handler transforms the results inside a \<^verbatim>\<open>try\<close> of its own.
  \<^verbatim>\<open>rawResults.filter(...)\<close> raises a TypeError when the results are not an array. Its
  callback reads \<^verbatim>\<open>c.overall_result\<close>, which raises on a \<^verbatim>\<open>null\<close> entry, and converts
  the status with \<^verbatim>\<open>String\<close>, which may raise; the first exception ends the filter. The
  string compared is \<^verbatim>\<open>String(...).toUpperCase()\<close>, and the strings whose upper-case
  form is \<^verbatim>\<open>SAFE\<close> are those of four characters s, S or U+017F, then a or A, f or F,
  e or E.
\<close>

definition upper_is_SAFE :: "jstring \<Rightarrow> bool" where
  "upper_is_SAFE t =
     (case t of
        [c1, c2, c3, c4] \<Rightarrow>
          (c1 = 83 \<or> c1 = 115 \<or> c1 = 383) \<and> (c2 = 65 \<or> c2 = 97) \<and> (c3 = 70 \<or> c3 = 102)
          \<and> (c4 = 69 \<or> c4 = 101)
      | _ \<Rightarrow> False)"

definition overall_of :: "jsval \<Rightarrow> jsval" where
  "overall_of c =
     js_or (js_or (js_prop c (ustr ''overall_result'')) (js_prop c (ustr ''overall_status'')))
       (JStr [])"

definition company_is_safe :: "jsval \<Rightarrow> js_error + bool" where
  "company_is_safe c =
     (if nullish c then Inl TypeError
      else (case js_String (overall_of c) of
              Inl e \<Rightarrow> Inl e
            | Inr t \<Rightarrow> Inr (upper_is_SAFE t)))"

definition count_passed :: "jsval \<Rightarrow> js_error + nat" where
  "count_passed rawResults =
     (case rawResults of
        JArr cs \<Rightarrow>
          (case first_error (map company_is_safe cs) of
             Inl e \<Rightarrow> Inl e
           | Inr safe \<Rightarrow> Inr (length (filter (\<lambda>b. b) safe)))
      | _ \<Rightarrow> Inl TypeError)"

definition handleAnalyzeRisk_onmessage ::
  "parse_result \<Rightarrow> agent_state \<Rightarrow> js_error option \<times> agent_state" where
  "handleAnalyzeRisk_onmessage p s =
     (case p of
        ParseFailure \<Rightarrow> (None, s)
      | Parsed eventData \<Rightarrow>
          let s1 = append_event 2 eventData s in
          if nullish eventData then (None, s1)
          else if js_prop eventData (ustr ''type'') = JStr (ustr ''session_complete'')
                  \<and> truthy (js_prop eventData (ustr ''results''))
          then
            let rawResults = js_or (js_prop eventData (ustr ''results'')) (JArr []);
                riskTokens =
                  js_or (js_opt (js_prop eventData (ustr ''token_usage'')) (ustr ''completion_tokens''))
                    (num 0)
            in (case count_passed rawResults of
                  Inl e \<Rightarrow> (None, s1)
                | Inr passed \<Rightarrow>
                    let finalResponse =
                      JObj [(ustr ''all_companies'', rawResults),
                            (ustr ''summary'',
                               JObj [(ustr ''total'', js_prop rawResults (ustr ''length'')),
                                     (ustr ''passed'', num passed)]),
                            (ustr ''tokens_used'', riskTokens)]
                    in (None,
                        s1\<lparr>riskAnalysisResponse := finalResponse,
                           completedSteps := insert 2 (completedSteps s1),
                           showStreamingPanel := False,
                           ws_closed := (ws_closed s1)(2 := True)\<rparr>))
          else (None, s1))"

definition handleAnalyzeRisk_onerror :: "agent_state \<Rightarrow> agent_state" where
  "handleAnalyzeRisk_onerror s = s"

definition handleAnalyzeRisk_onclose :: "agent_state \<Rightarrow> agent_state" where
  "handleAnalyzeRisk_onclose s = s\<lparr>showStreamingPanel := False, isSubmitting := False\<rparr>"

definition handleGenerateReport_onmessage ::
  "parse_result \<Rightarrow> agent_state \<Rightarrow> js_error option \<times> agent_state" where
  "handleGenerateReport_onmessage p s =
     (case p of
        ParseFailure \<Rightarrow> (None, s)
      | Parsed eventData \<Rightarrow>
          let s1 = append_event 3 eventData s in
          if nullish eventData then (None, s1)
          else if js_prop eventData (ustr ''type'') = JStr (ustr ''report_complete'')
          then (None,
                s1\<lparr>reportResponse := eventData,
                   reportFilePath := js_or (js_prop eventData (ustr ''file_path'')) JNull,
                   completedSteps := insert 3 (completedSteps s1),
                   isSubmitting := False,
                   ws_closed := (ws_closed s1)(3 := True)\<rparr>)
          else (None, s1))"

definition handleGenerateReport_onerror :: "agent_state \<Rightarrow> agent_state" where
  "handleGenerateReport_onerror s = s\<lparr>isSubmitting := False, showStreamingPanel := False\<rparr>"

definition handleGenerateReport_onclose :: "agent_state \<Rightarrow> agent_state" where
  "handleGenerateReport_onclose s = s\<lparr>showStreamingPanel := False, isSubmitting := False\<rparr>"

text \<open>The message handler of each step, by step number.\<close>

definition onmessage :: "int \<Rightarrow> parse_result \<Rightarrow> agent_state \<Rightarrow> js_error option \<times> agent_state" where
  "onmessage k p s =
     (if k = 0 then handleSourceCompanies_onmessage p s
      else if k = 1 then handleScreenCompanies_onmessage p s
      else if k = 2 then handleAnalyzeRisk_onmessage p s
      else if k = 3 then handleGenerateReport_onmessage p s
      else (None, s))"

text \<open>
  A run of the event loop: the messages of the sockets in their order of arrival, each
  with the step of its socket, handled one after the other.
\<close>

fun run_messages :: "(int \<times> parse_result) list \<Rightarrow> agent_state \<Rightarrow> agent_state" where
  "run_messages [] s = s"
| "run_messages ((k, p) # ms) s = run_messages ms (snd (onmessage k p s))"

text \<open>The events that the messages of step \<open>k\<close> parse to, in order.\<close>

fun events_of :: "int \<Rightarrow> (int \<times> parse_result) list \<Rightarrow> jsval list" where
  "events_of k [] = []"
| "events_of k ((j, ParseFailure) # ms) = events_of k ms"
| "events_of k ((j, Parsed e) # ms) = (if j = k then e # events_of k ms else events_of k ms)"

text \<open>
  The completion event of each step: the type is the distinguished one and the payload
  is present (truthy). For risk analysis the results must also pass the
  transformation: an array without a \<^verbatim>\<open>null\<close> entry whose entries have a status
  that converts to a string.
\<close>

definition completion_event :: "int \<Rightarrow> jsval \<Rightarrow> bool" where
  "completion_event k e \<longleftrightarrow>
     \<not> nullish e \<and>
     (if k = 0 then
        js_prop e (ustr ''type'') = JStr (ustr ''analysis_complete'')
        \<and> truthy (js_prop e (ustr ''result''))
      else if k = 1 then
        js_prop e (ustr ''type'') = JStr (ustr ''final_result'')
        \<and> truthy (js_prop e (ustr ''content''))
      else if k = 2 then
        js_prop e (ustr ''type'') = JStr (ustr ''session_complete'')
        \<and> (case js_prop e (ustr ''results'') of
              JArr cs \<Rightarrow> list_all (\<lambda>c. \<not> nullish c \<and> stringable (overall_of c)) cs
            | _ \<Rightarrow> False)
      else k = 3 \<and> js_prop e (ustr ''type'') = JStr (ustr ''report_complete''))"

section \<open>Aggregating the streamed events\<close>



text \<open>The same effect in FundMandate, which has one list of events.\<close>

record mandate_state =
  streamingEvents :: "jsval list"
  aggregatedThinking :: "jsval list"
  lastProcessedStreamingCount :: nat





section \<open>Runs of the event loop\<close>












section \<open>Notions for the properties of the aggregation\<close>






section \<open>Upload validation (FundMandate)\<close>

text \<open>
  The two fields of the browser's \<^verbatim>\<open>File\<close> that \<^verbatim>\<open>validateFile\<close> reads: the MIME type, a
  string, and the size in bytes, a non-negative integer.
\<close>

record upload_file =
  file_type :: jstring
  file_size :: nat

definition allowedTypes :: "jstring list" where
  "allowedTypes = [ustr ''application/pdf'']"

definition maxSize :: nat where
  "maxSize = 10 * 1024 * 1024"

text \<open>The result is the error message, or \<open>None\<close> for the source's \<^verbatim>\<open>null\<close>.\<close>

definition validateFile :: "upload_file \<Rightarrow> jstring option" where
  "validateFile f =
     (if file_type f \<notin> set allowedTypes then Some (ustr ''Only PDF files are allowed'')
      else if file_size f > maxSize then Some (ustr ''File size must be less than 10MB'')
      else None)"

section \<open>CSV export (SourcingAgent)\<close>

text \<open>
  \<^verbatim>\<open>escapeCSV\<close>, local to \<^verbatim>\<open>exportRiskAnalysisToCSV\<close>. The code units are 44 for the comma,
  34 for the double quote and 10 for the line feed.
\<close>

definition replace_quotes :: "jstring \<Rightarrow> jstring" where
  "replace_quotes s = concat (map (\<lambda>c. if c = 34 then [34, 34] else [c]) s)"

definition escapeCSV :: "jstring \<Rightarrow> jstring" where
  "escapeCSV v =
     (if 44 \<in> set v \<or> 34 \<in> set v \<or> 10 \<in> set v
      then [34] @ replace_quotes v @ [34]
      else v)"

text \<open>
  The decoder is not part of the repository. It follows the words of the property: a
  field that is enclosed in double quotes loses them and every doubled quote inside
  collapses to one; any other field is taken as it is.
\<close>

fun collapse_quotes :: "jstring \<Rightarrow> jstring" where
  "collapse_quotes (c # d # cs) =
     (if c = 34 \<and> d = 34 then 34 # collapse_quotes cs else c # collapse_quotes (d # cs))"
| "collapse_quotes cs = cs"

definition rfc4180_decode_field :: "jstring \<Rightarrow> jstring" where
  "rfc4180_decode_field f =
     (case f of
        [] \<Rightarrow> f
      | c # rest \<Rightarrow>
          if c = 34 \<and> rest \<noteq> [] \<and> last rest = 34 then collapse_quotes (butlast rest) else f)"

section \<open>Basic facts\<close>

lemma ustr_eq_iff: "ustr s = ustr t \<longleftrightarrow> s = t"
  unfolding ustr_def by (simp add: inj_map_eq_map inj_on_def)


lemma replace_quotes_Nil: "replace_quotes [] = []"
  by (simp add: replace_quotes_def)

lemma replace_quotes_Cons:
  "replace_quotes (c # s) = (if c = 34 then [34, 34] else [c]) @ replace_quotes s"
  by (simp add: replace_quotes_def)

lemma collapse_quotes_other: "c \<noteq> 34 \<Longrightarrow> collapse_quotes (c # r) = c # collapse_quotes r"
  by (cases r) simp_all

lemma collapse_replace_quotes: "collapse_quotes (replace_quotes s) = s"
proof (induction s)
  case Nil
  show ?case by (simp add: replace_quotes_Nil)
next
  case (Cons c s)
  then show ?case
    by (cases "c = 34") (simp_all add: replace_quotes_Cons collapse_quotes_other)
qed

declare decimal.simps [simp del]

lemma truthy_not_nullish: "truthy v \<Longrightarrow> \<not> nullish v"
  by (cases v) simp_all

lemma first_error_ok: "(\<exists>xs. first_error rs = Inr xs) \<longleftrightarrow> (\<forall>r\<in>set rs. \<exists>x. r = Inr x)"
proof (induction rs)
  case Nil
  show ?case by simp
next
  case (Cons r rs)
  show ?case
  proof (cases r)
    case (Inl e)
    then show ?thesis by auto
  next
    case (Inr x)
    show ?thesis
    proof (cases "first_error rs")
      case (Inl e)
      with Cons Inr show ?thesis by simp
    next
      case r2: (Inr ys)
      with Cons Inr show ?thesis by simp
    qed
  qed
qed

lemma js_String_stringable: "(\<exists>t. js_String v = Inr t) \<longleftrightarrow> stringable v"
proof (induction v)
  case (JArr xs)
  have "(\<exists>t. js_String (JArr xs) = Inr t)
      \<longleftrightarrow> (\<exists>ss. first_error (map (\<lambda>x. if nullish x then Inr [] else js_String x) xs) = Inr ss)"
    by (cases "first_error (map (\<lambda>x. if nullish x then Inr [] else js_String x) xs)") simp_all
  also have "\<dots> \<longleftrightarrow> (\<forall>x\<in>set xs. nullish x \<or> (\<exists>t. js_String x = Inr t))"
    unfolding first_error_ok by auto
  also have "\<dots> \<longleftrightarrow> (\<forall>x\<in>set xs. nullish x \<or> stringable x)"
    using JArr by blast
  finally show ?case by (simp add: list_all_iff)
qed simp_all

lemma js_String_raises: "(\<exists>e. js_String v = Inl e) \<longleftrightarrow> \<not> stringable v"
  using js_String_stringable [of v] by (cases "js_String v") auto

lemma decimal_small: "n < 10 \<Longrightarrow> decimal n = [48 + n]"
  by (subst decimal.simps) simp

lemma decimal_large: "\<not> n < 10 \<Longrightarrow> decimal n = decimal (n div 10) @ [48 + n mod 10]"
  by (subst decimal.simps) simp

lemma is_digit_last: "is_digit (48 + n mod 10)"
proof -
  have "n mod 10 < 10" by simp
  then show ?thesis unfolding is_digit_def by linarith
qed

lemma decimal_digits: "decimal n \<noteq> [] \<and> list_all is_digit (decimal n)"
proof (induction n rule: decimal.induct)
  case (1 n)
  show ?case
  proof (cases "n < 10")
    case True
    then have "decimal n = [48 + n mod 10]" by (simp add: decimal_small)
    then show ?thesis by (simp add: is_digit_last)
  next
    case False
    with 1 have "list_all is_digit (decimal (n div 10))" by simp
    with False show ?thesis by (simp add: decimal_large is_digit_last)
  qed
qed

lemma decimal_zero_iff: "decimal n = [48] \<longleftrightarrow> n = 0"
proof (cases "n < 10")
  case True
  then show ?thesis by (simp add: decimal_small)
next
  case False
  have "decimal (n div 10) \<noteq> []" using decimal_digits by blast
  then obtain d ds where "decimal (n div 10) = d # ds" by (cases "decimal (n div 10)") auto
  with False show ?thesis by (simp add: decimal_large)
qed

lemma hd_decimal: "hd (decimal n) \<noteq> 45"
proof -
  from decimal_digits [of n] have "decimal n \<noteq> []" "list_all is_digit (decimal n)" by simp_all
  then have "is_digit (hd (decimal n))" by (cases "decimal n") simp_all
  then show ?thesis by (auto simp: is_digit_def)
qed

lemma truthy_num: "truthy (num n) \<longleftrightarrow> n \<noteq> 0"
  by (simp add: num_def decimal_zero_iff)

lemma js_gt0_num: "js_gt0 (num n) = Inr (0 < n)"
  by (simp add: num_def decimal_zero_iff hd_decimal)


lemma stringable_num: "stringable (num n)"
  by (simp add: num_def)

section \<open>Grouping of thinking items: the loop invariant\<close>

lemma adjacent_differ_snoc:
  "adjacent_differ (gs @ [c]) \<longleftrightarrow>
     adjacent_differ gs \<and> (gs \<noteq> [] \<longrightarrow> getEventType (hd (last gs)) \<noteq> getEventType (hd c))"
  by (induction gs rule: adjacent_differ.induct) auto

lemma concat_group_loop:
  "concat (finish (group_loop xs groups cur)) = concat groups @ cur @ xs"
  by (induction xs arbitrary: groups cur) (auto simp: finish_def split: list.splits)

lemma homogeneous_Cons_iff:
  "homogeneous (f # g) \<longleftrightarrow> (\<forall>a\<in>set g. getEventType a = getEventType f)"
proof
  assume "homogeneous (f # g)"
  then show "\<forall>a\<in>set g. getEventType a = getEventType f"
    unfolding homogeneous_def by (meson list.set_intros)
next
  assume h: "\<forall>a\<in>set g. getEventType a = getEventType f"
  have "getEventType a = getEventType f" if "a \<in> set (f # g)" for a
    using that h by (cases "a = f") simp_all
  then show "homogeneous (f # g)"
    unfolding homogeneous_def by metis
qed

lemma homogeneous_snoc:
  "homogeneous (f # g) \<Longrightarrow> getEventType x = getEventType f \<Longrightarrow> homogeneous (f # g @ [x])"
  unfolding homogeneous_Cons_iff by simp

lemma homogeneous_single: "homogeneous [x]"
  by (simp add: homogeneous_Cons_iff)

lemma closed_group_loop:
  "closed_groups (finish (groups, cur)) \<Longrightarrow> (cur = [] \<longrightarrow> groups = [])
   \<Longrightarrow> closed_groups (finish (group_loop xs groups cur))"
proof (induction xs arbitrary: groups cur)
  case Nil
  then show ?case by simp
next
  case (Cons x xs)
  show ?case
  proof (cases cur)
    case Nil
    with Cons.prems have g: "groups = []" by simp
    have "closed_groups (finish ([], [x]))"
      by (simp add: closed_groups_def finish_def homogeneous_single)
    then have "closed_groups (finish (group_loop xs [] [x]))"
      by (rule Cons.IH) simp
    with Nil g show ?thesis by simp
  next
    case (Cons f r)
    from Cons.prems(1) Cons have c: "closed_groups (groups @ [f # r])"
      by (simp add: finish_def)
    show ?thesis
    proof (cases "getEventType x = getEventType f")
      case True
      from c have "homogeneous (f # r)"
        by (simp add: closed_groups_def)
      with True have "homogeneous (f # r @ [x])"
        by (simp add: homogeneous_snoc)
      with c have "closed_groups (groups @ [f # r @ [x]])"
        by (simp add: closed_groups_def adjacent_differ_snoc)
      then have "closed_groups (finish (groups, (f # r) @ [x]))"
        by (simp add: finish_def)
      then have "closed_groups (finish (group_loop xs groups ((f # r) @ [x])))"
        by (rule Cons.IH) simp
      with Cons True show ?thesis by simp
    next
      case False
      have "adjacent_differ ((groups @ [f # r]) @ [[x]])"
        unfolding adjacent_differ_snoc [of "groups @ [f # r]" "[x]"]
        using c False by (simp add: closed_groups_def)
      with c have "closed_groups ((groups @ [f # r]) @ [[x]])"
        by (simp add: closed_groups_def homogeneous_single)
      then have "closed_groups (finish (groups @ [f # r], [x]))"
        by (simp add: finish_def)
      then have "closed_groups (finish (group_loop xs (groups @ [f # r]) [x]))"
        by (rule Cons.IH) simp
      with Cons False show ?thesis by simp
    qed
  qed
qed

lemma homogeneousD:
  "homogeneous g \<Longrightarrow> a \<in> set g \<Longrightarrow> b \<in> set g \<Longrightarrow> getEventType a = getEventType b"
  unfolding homogeneous_def by blast

lemma adjacent_differ_nth:
  "adjacent_differ gs \<Longrightarrow> Suc i < length gs
   \<Longrightarrow> getEventType (hd (gs ! i)) \<noteq> getEventType (hd (gs ! Suc i))"
proof (induction gs arbitrary: i rule: adjacent_differ.induct)
  case (1 g h r)
  then show ?case by (cases i) auto
qed auto

lemma groupedThinking_finish: "groupedThinking xs = finish (group_loop xs [] [])"
  by (simp add: groupedThinking_def finish_def)

text \<open>
  C6. For every list of thinking items, \<^verbatim>\<open>groupedThinking\<close> cuts the list into maximal
  runs of consecutive items of equal display type: the groups concatenated in order are
  the input list, no group is empty, the items of a group share their display type,
  and the display types of two adjacent groups differ.
\<close>

theorem groupedThinking_partition:
  "concat (groupedThinking xs) = xs
   \<and> (\<forall>g\<in>set (groupedThinking xs). g \<noteq> [])
   \<and> (\<forall>g\<in>set (groupedThinking xs). \<forall>a\<in>set g. \<forall>b\<in>set g. getEventType a = getEventType b)
   \<and> (\<forall>i. Suc i < length (groupedThinking xs) \<longrightarrow>
         (\<forall>a\<in>set (groupedThinking xs ! i). \<forall>b\<in>set (groupedThinking xs ! Suc i).
            getEventType a \<noteq> getEventType b))"
proof -
  have cat: "concat (groupedThinking xs) = xs"
    using concat_group_loop [of xs "[]" "[]"] by (simp add: groupedThinking_finish)
  have "closed_groups (finish ([], []))"
    by (simp add: closed_groups_def finish_def)
  then have cl: "closed_groups (groupedThinking xs)"
    unfolding groupedThinking_finish by (rule closed_group_loop) simp
  then have ne: "\<forall>g\<in>set (groupedThinking xs). g \<noteq> []"
    and ho: "\<forall>g\<in>set (groupedThinking xs). homogeneous g"
    and ad: "adjacent_differ (groupedThinking xs)"
    by (simp_all add: closed_groups_def)
  have adj: "getEventType a \<noteq> getEventType b"
    if i: "Suc i < length (groupedThinking xs)"
      and a: "a \<in> set (groupedThinking xs ! i)" and b: "b \<in> set (groupedThinking xs ! Suc i)"
    for i a b
  proof -
    let ?g = "groupedThinking xs ! i" and ?h = "groupedThinking xs ! Suc i"
    from i have gm: "?g \<in> set (groupedThinking xs)" and hm: "?h \<in> set (groupedThinking xs)"
      by simp_all
    from ne gm have "?g \<noteq> []" by (rule bspec)
    then have hg: "hd ?g \<in> set ?g" by (rule hd_in_set)
    from ne hm have "?h \<noteq> []" by (rule bspec)
    then have hh: "hd ?h \<in> set ?h" by (rule hd_in_set)
    from ho gm have "homogeneous ?g" by (rule bspec)
    then have ea: "getEventType (hd ?g) = getEventType a"
      using hg a by (rule homogeneousD)
    from ho hm have "homogeneous ?h" by (rule bspec)
    then have eb: "getEventType (hd ?h) = getEventType b"
      using hh b by (rule homogeneousD)
    from adjacent_differ_nth [OF ad i]
    have "getEventType (hd ?g) \<noteq> getEventType (hd ?h)" .
    then show ?thesis unfolding ea eb .
  qed
  have ho': "\<forall>g\<in>set (groupedThinking xs). \<forall>a\<in>set g. \<forall>b\<in>set g. getEventType a = getEventType b"
    using ho homogeneousD by blast
  from adj have adj': "\<forall>i. Suc i < length (groupedThinking xs) \<longrightarrow>
         (\<forall>a\<in>set (groupedThinking xs ! i). \<forall>b\<in>set (groupedThinking xs ! Suc i).
            getEventType a \<noteq> getEventType b)"
    by simp
  show ?thesis
    by (rule conjI [OF cat conjI [OF ne conjI [OF ho' adj']]])
qed


theorem groupedThinking_partition_witness:
  "groupedThinking
     [ItemObj (ustr ''agent_thinking'') [104], ItemStr [105], ItemObj (ustr ''tool_call'') [106]]
   = [[ItemObj (ustr ''agent_thinking'') [104], ItemStr [105]], [ItemObj (ustr ''tool_call'') [106]]]
   \<and> concat (groupedThinking
     [ItemObj (ustr ''agent_thinking'') [104], ItemStr [105], ItemObj (ustr ''tool_call'') [106]])
   = [ItemObj (ustr ''agent_thinking'') [104], ItemStr [105], ItemObj (ustr ''tool_call'') [106]]
   \<and> getEventType (ItemStr [105]) \<noteq> getEventType (ItemObj (ustr ''tool_call'') [106])"
proof -
  let ?xs = "[ItemObj (ustr ''agent_thinking'') [104], ItemStr [105], ItemObj (ustr ''tool_call'') [106]]"
  have g: "groupedThinking ?xs
      = [[ItemObj (ustr ''agent_thinking'') [104], ItemStr [105]], [ItemObj (ustr ''tool_call'') [106]]]"
    by (simp add: groupedThinking_def title_case_def ustr_def is_word_def upper_ascii_def)
  have len: "Suc 0 < length (groupedThinking ?xs)"
    by (simp add: g)
  from groupedThinking_partition [of ?xs]
  have c: "concat (groupedThinking ?xs) = ?xs"
    and adj: "\<forall>i. Suc i < length (groupedThinking ?xs) \<longrightarrow>
         (\<forall>a\<in>set (groupedThinking ?xs ! i). \<forall>b\<in>set (groupedThinking ?xs ! Suc i).
            getEventType a \<noteq> getEventType b)"
    by blast+
  from adj len
  have "\<forall>a\<in>set (groupedThinking ?xs ! 0). \<forall>b\<in>set (groupedThinking ?xs ! Suc 0).
            getEventType a \<noteq> getEventType b"
    by blast
  then have "getEventType (ItemStr [105]) \<noteq> getEventType (ItemObj (ustr ''tool_call'') [106])"
    unfolding g by simp
  with g c show ?thesis by simp
qed

section \<open>Normalising the shapes of a company: the properties\<close>

lemma risk_record_spec:
  "risk_record (category, val) =
     JObj [(ustr ''category'', JStr category),
           (ustr ''status'',
              (case filter (\<lambda>x. \<not> nullish x)
                 [js_opt val (ustr ''status''), js_opt val (ustr ''Status''), js_opt val (ustr ''status_text'')]
               of [] \<Rightarrow> JStr [] | x # _ \<Rightarrow> x)),
           (ustr ''reason'',
              (case filter (\<lambda>x. \<not> nullish x)
                 [js_opt val (ustr ''reason''), js_opt val (ustr ''Reason''), js_opt val (ustr ''reason_text'')]
               of [] \<Rightarrow> JStr [] | x # _ \<Rightarrow> x))]"
  by (simp add: risk_record_def js_coalesce_def)

lemma getRiskScores_falsy: "\<not> truthy company \<Longrightarrow> getRiskScores company = Inr (JArr [])"
  by (simp add: getRiskScores_def)

lemma getRiskScores_array:
  "truthy company \<Longrightarrow> js_prop company (ustr ''risk_scores'') = JArr xs \<Longrightarrow> xs \<noteq> []
   \<Longrightarrow> getRiskScores company = Inr (JArr xs)"
  by (simp add: getRiskScores_def is_nonempty_array_def)

lemma is_nonempty_array_iff: "is_nonempty_array v \<longleftrightarrow> (\<exists>xs. v = JArr xs \<and> xs \<noteq> [])"
  by (cases v) (simp_all add: is_nonempty_array_def)

lemma getRiskScores_entries:
  "truthy company \<Longrightarrow> \<not> (\<exists>xs. js_prop company (ustr ''risk_scores'') = JArr xs \<and> xs \<noteq> [])
   \<Longrightarrow> getRiskScores company =
       Inr (JArr (map risk_record (own_entries
         (case filter truthy [js_prop company (ustr ''parameter_analysis''),
                              js_prop company (ustr ''parameterAnalysis'')]
          of [] \<Rightarrow> JObj [] | p # _ \<Rightarrow> p))))"
proof -
  assume t: "truthy company"
    and "\<not> (\<exists>xs. js_prop company (ustr ''risk_scores'') = JArr xs \<and> xs \<noteq> [])"
  then have n: "\<not> is_nonempty_array (js_prop company (ustr ''risk_scores''))"
    by (simp only: is_nonempty_array_iff not_False_eq_True)
  from t n show ?thesis
    by (simp add: getRiskScores_def js_or_def Object_entries_def truthy_not_nullish)
qed

lemma getOverall_first_truthy:
  "getOverall company =
     (case filter truthy (map (js_opt company)
        [ustr ''overall_result'', ustr ''overallResult'', ustr ''overall_status'',
         ustr ''overallStatus'', ustr ''overall''])
      of [] \<Rightarrow> JStr [] | v # _ \<Rightarrow> v)"
  by (simp add: getOverall_def js_or_def)

text \<open>
  C4. For \<^verbatim>\<open>null\<close> and \<^verbatim>\<open>undefined\<close> (and any other falsy company) \<^verbatim>\<open>getRiskScores\<close>
  returns the empty list. For a company object it returns \<^verbatim>\<open>company.risk_scores\<close>
  whenever that is a non-empty array, and otherwise one record \<^verbatim>\<open>{category, status,
  reason}\<close> for every entry of \<^verbatim>\<open>parameter_analysis\<close> (or of \<^verbatim>\<open>parameterAnalysis\<close> when
  the former is missing), where status is the first of \<^verbatim>\<open>status\<close>, \<^verbatim>\<open>Status\<close>,
  \<^verbatim>\<open>status_text\<close> that is present and reason the first of \<^verbatim>\<open>reason\<close>, \<^verbatim>\<open>Reason\<close>,
  \<^verbatim>\<open>reason_text\<close>, each with the empty string as default. It never raises.
  \<^verbatim>\<open>getOverall\<close> returns the first truthy value among \<^verbatim>\<open>overall_result\<close>,
  \<^verbatim>\<open>overallResult\<close>, \<^verbatim>\<open>overall_status\<close>, \<^verbatim>\<open>overallStatus\<close>, \<^verbatim>\<open>overall\<close>, and the empty
  string when there is none.
\<close>

theorem normalizers_spec:
  "getRiskScores JNull = Inr (JArr []) \<and> getRiskScores JUndefined = Inr (JArr [])
   \<and> (\<not> truthy company \<longrightarrow> getRiskScores company = Inr (JArr []))
   \<and> (truthy company \<and> js_prop company (ustr ''risk_scores'') = JArr xs \<and> xs \<noteq> []
        \<longrightarrow> getRiskScores company = Inr (JArr xs))
   \<and> (truthy company \<and> \<not> (\<exists>ys. js_prop company (ustr ''risk_scores'') = JArr ys \<and> ys \<noteq> [])
        \<longrightarrow> getRiskScores company =
          Inr (JArr (map
            (\<lambda>(category, val).
               JObj [(ustr ''category'', JStr category),
                     (ustr ''status'',
                        (case filter (\<lambda>x. \<not> nullish x)
                           [js_opt val (ustr ''status''), js_opt val (ustr ''Status''),
                            js_opt val (ustr ''status_text'')]
                         of [] \<Rightarrow> JStr [] | x # _ \<Rightarrow> x)),
                     (ustr ''reason'',
                        (case filter (\<lambda>x. \<not> nullish x)
                           [js_opt val (ustr ''reason''), js_opt val (ustr ''Reason''),
                            js_opt val (ustr ''reason_text'')]
                         of [] \<Rightarrow> JStr [] | x # _ \<Rightarrow> x))])
            (own_entries
               (case filter truthy [js_prop company (ustr ''parameter_analysis''),
                                    js_prop company (ustr ''parameterAnalysis'')]
                of [] \<Rightarrow> JObj [] | p # _ \<Rightarrow> p)))))
   \<and> (\<exists>v. getRiskScores company = Inr v)
   \<and> getOverall company =
       (case filter truthy (map (js_opt company)
          [ustr ''overall_result'', ustr ''overallResult'', ustr ''overall_status'',
           ustr ''overallStatus'', ustr ''overall''])
        of [] \<Rightarrow> JStr [] | v # _ \<Rightarrow> v)"
proof -
  have rr: "risk_record =
      (\<lambda>(category, val).
               JObj [(ustr ''category'', JStr category),
                     (ustr ''status'',
                        (case filter (\<lambda>x. \<not> nullish x)
                           [js_opt val (ustr ''status''), js_opt val (ustr ''Status''),
                            js_opt val (ustr ''status_text'')]
                         of [] \<Rightarrow> JStr [] | x # _ \<Rightarrow> x)),
                     (ustr ''reason'',
                        (case filter (\<lambda>x. \<not> nullish x)
                           [js_opt val (ustr ''reason''), js_opt val (ustr ''Reason''),
                            js_opt val (ustr ''reason_text'')]
                         of [] \<Rightarrow> JStr [] | x # _ \<Rightarrow> x))])"
    by (rule ext) (simp only: split_paired_all risk_record_spec prod.case)
  have total: "\<exists>v. getRiskScores company = Inr v"
  proof (cases "truthy company")
    case False
    then show ?thesis by (simp add: getRiskScores_falsy)
  next
    case True
    show ?thesis
    proof (cases "\<exists>ys. js_prop company (ustr ''risk_scores'') = JArr ys \<and> ys \<noteq> []")
      case True
      with \<open>truthy company\<close> show ?thesis by (auto simp: getRiskScores_array)
    next
      case False
      from getRiskScores_entries [OF \<open>truthy company\<close> False] show ?thesis by blast
    qed
  qed
  have a: "getRiskScores JNull = Inr (JArr [])" "getRiskScores JUndefined = Inr (JArr [])"
    by (simp_all add: getRiskScores_falsy)
  show ?thesis
    unfolding rr [symmetric]
    using a total getRiskScores_falsy [of company] getRiskScores_array [of company xs]
      getRiskScores_entries [of company] getOverall_first_truthy [of company]
    by blast
qed

theorem normalizers_spec_witness:
  "getRiskScores (JObj [(ustr ''risk_scores'', JArr [num 1])]) = Inr (JArr [num 1])
   \<and> getRiskScores (JObj [(ustr ''risk_scores'', JArr []),
        (ustr ''parameterAnalysis'',
           JObj [(ustr ''Liquidity'', JObj [(ustr ''Status'', JStr (ustr ''SAFE''))])])])
      = Inr (JArr [JObj [(ustr ''category'', JStr (ustr ''Liquidity'')),
                         (ustr ''status'', JStr (ustr ''SAFE'')),
                         (ustr ''reason'', JStr [])]])
   \<and> getOverall (JObj [(ustr ''overall_result'', JStr []),
        (ustr ''overallStatus'', JStr (ustr ''SAFE''))]) = JStr (ustr ''SAFE'')"
proof -
  let ?c1 = "JObj [(ustr ''risk_scores'', JArr [num 1])]"
  let ?c2 = "JObj [(ustr ''risk_scores'', JArr []),
        (ustr ''parameterAnalysis'',
           JObj [(ustr ''Liquidity'', JObj [(ustr ''Status'', JStr (ustr ''SAFE''))])])]"
  let ?c3 = "JObj [(ustr ''overall_result'', JStr []),
        (ustr ''overallStatus'', JStr (ustr ''SAFE''))]"
  have h1: "truthy ?c1 \<and> js_prop ?c1 (ustr ''risk_scores'') = JArr [num 1] \<and> [num 1] \<noteq> []"
    by simp
  have h2: "truthy ?c2 \<and> \<not> (\<exists>ys. js_prop ?c2 (ustr ''risk_scores'') = JArr ys \<and> ys \<noteq> [])"
    by simp
  from normalizers_spec [of ?c1 "[num 1]"] h1
  have r1: "getRiskScores ?c1 = Inr (JArr [num 1])"
    by blast
  from normalizers_spec [of ?c2 "[]"] h2
  have r2: "getRiskScores ?c2 = Inr (JArr [JObj [(ustr ''category'', JStr (ustr ''Liquidity'')),
                         (ustr ''status'', JStr (ustr ''SAFE'')),
                         (ustr ''reason'', JStr [])]])"
    by (simp add: ustr_eq_iff js_opt_def)
  from normalizers_spec [of ?c3 "[]"]
  have r3: "getOverall ?c3 = JStr (ustr ''SAFE'')"
    by (simp add: ustr_eq_iff js_opt_def ustr_def)
  from r1 r2 r3 show ?thesis by blast
qed

section \<open>Step gating: the properties\<close>

lemma js_prop_falsy: "\<not> truthy r \<Longrightarrow> \<not> truthy (js_prop r k)"
  by (cases r) (simp_all add: truthy_num)

lemma truthy_js_and: "truthy (js_and a b) \<longleftrightarrow> truthy a \<and> truthy b"
  by (simp add: js_and_def)

lemma js_opt_truthy: "truthy (js_opt r k) \<longleftrightarrow> truthy r \<and> truthy (js_prop r k)"
  using js_prop_falsy [of r k] by (auto simp: js_opt_def truthy_not_nullish)

lemma js_opt_prop: "truthy r \<Longrightarrow> js_opt r k = js_prop r k"
  by (simp add: js_opt_def truthy_not_nullish)

lemma guard_chain1: "truthy (js_and r (js_prop r k)) \<longleftrightarrow> truthy (js_opt r k)"
  by (simp add: truthy_js_and js_opt_truthy)

lemma guard_chain2:
  "truthy (js_and (js_and r (js_prop r k)) (js_prop (js_prop r k) j))
   \<longleftrightarrow> truthy (js_opt (js_opt r k) j)"
  by (auto simp: truthy_js_and js_opt_truthy js_opt_prop)

lemma js_and_r_values: "js_and_r (Inr a) (Inr b) = Inr (js_and a b)"
  by (simp add: js_and_r_def js_and_def)

lemma js_and_r_value: "js_and_r (Inr a) r = (if truthy a then r else Inr a)"
  by (simp add: js_and_r_def)

lemma proceed_chain1:
  "js_and_r (js_and_r (Inr r) (Inr (js_prop r k))) (length_gt0 (js_prop r k))
   = (if truthy (js_opt r k) then length_gt0 (js_opt r k)
      else Inr (js_and r (js_prop r k)))"
  by (cases "truthy r"; cases "truthy (js_prop r k)")
    (simp_all add: js_and_r_def js_and_def js_opt_truthy js_opt_prop)

lemma proceed_chain2:
  "js_and_r (js_and_r (js_and_r (Inr r) (Inr (js_prop r k))) (Inr (js_prop (js_prop r k) j)))
     (length_gt0 (js_prop (js_prop r k) j))
   = (if truthy (js_opt (js_opt r k) j) then length_gt0 (js_opt (js_opt r k) j)
      else Inr (js_and (js_and r (js_prop r k)) (js_prop (js_prop r k) j)))"
  by (cases "truthy r"; cases "truthy (js_prop r k)"; cases "truthy (js_prop (js_prop r k) j)")
    (simp_all add: js_and_r_def js_and_def js_opt_truthy js_opt_prop)

lemma length_gt0_array: "length_gt0 (JArr xs) = Inr (JBool (xs \<noteq> []))"
  by (simp add: length_gt0_def js_gt0_num)

lemma length_gt0_true:
  "length_gt0 v = Inr (JBool True) \<longleftrightarrow> js_gt0 (js_prop v (ustr ''length'')) = Inr True"
  by (simp add: length_gt0_def split: sum.splits)

lemma length_gt0_bool: "length_gt0 v = Inr w \<Longrightarrow> truthy w \<longleftrightarrow> w = JBool True"
  by (auto simp: length_gt0_def split: sum.splits)

text \<open>
  What \<^verbatim>\<open>canProceedStep\<close> returns for a response whose list is the value \<open>l\<close>, given
  the value \<open>g\<close> of the guards before the comparison: the comparison when the list is
  truthy, and the falsy guard otherwise.
\<close>

lemma proceed_cases:
  assumes c: "c = (if truthy l then length_gt0 l else Inr g)" and g: "\<not> truthy l \<Longrightarrow> \<not> truthy g"
  shows "(c = Inr (JBool True) \<longleftrightarrow> truthy l \<and> js_gt0 (js_prop l (ustr ''length'')) = Inr True)
    \<and> (\<forall>xs. l = JArr xs \<longrightarrow> c = Inr (JBool (xs \<noteq> [])))
    \<and> (\<not> truthy l \<longrightarrow> (\<exists>w. c = Inr w \<and> \<not> truthy w))
    \<and> (\<forall>w. c = Inr w \<longrightarrow> (truthy w \<longleftrightarrow> w = JBool True))"
proof (cases "truthy l")
  case True
  with c have e: "c = length_gt0 l"
    by simp
  show ?thesis
    unfolding e using True length_gt0_bool [of l]
    by (auto simp: length_gt0_true length_gt0_array)
next
  case False
  with c have e: "c = Inr g"
    by simp
  from False g have "\<not> truthy g"
    by simp
  with False show ?thesis
    unfolding e by auto
qed

text \<open>
  C1. The step gating is a linear check of preconditions. \<^verbatim>\<open>canNavigateToStep(0)\<close> is
  \<^verbatim>\<open>true\<close>; \<^verbatim>\<open>canNavigateToStep(1)\<close> holds only when \<^verbatim>\<open>sourcingList\<close> is non-empty and
  \<^verbatim>\<open>filterResponse.companies.qualified\<close> is present, \<^verbatim>\<open>canNavigateToStep(2)\<close> only when
  \<^verbatim>\<open>screeningList\<close> is non-empty and \<^verbatim>\<open>screeningResponse.company_details\<close> is present,
  \<^verbatim>\<open>canNavigateToStep(3)\<close> only when \<^verbatim>\<open>riskAnalysisList\<close> is non-empty and
  \<^verbatim>\<open>riskAnalysisResponse.all_companies\<close> is present; any other index yields \<^verbatim>\<open>false\<close>.
  \<^verbatim>\<open>canProceedStep()\<close> at the steps 0, 1 and 2 returns \<^verbatim>\<open>true\<close> exactly when the
  respective response list exists and is non-empty: exactly when the list is present
  and its \<^verbatim>\<open>length\<close> is greater than 0; for a list that is an array it returns whether
  the array is not empty; for an absent list it returns a falsy value; and whatever it
  returns is truthy only if it is \<^verbatim>\<open>true\<close>. At step 3 it returns \<^verbatim>\<open>true\<close>, at any other
  step \<^verbatim>\<open>false\<close>.
\<close>

theorem step_gating:
  "canNavigateToStep s 0 = JBool True
   \<and> (truthy (canNavigateToStep s 1) \<longleftrightarrow>
        sourcingList s \<noteq> []
        \<and> truthy (js_opt (js_opt (filterResponse s) (ustr ''companies'')) (ustr ''qualified'')))
   \<and> (truthy (canNavigateToStep s 2) \<longleftrightarrow>
        screeningList s \<noteq> [] \<and> truthy (js_opt (screeningResponse s) (ustr ''company_details'')))
   \<and> (truthy (canNavigateToStep s 3) \<longleftrightarrow>
        riskAnalysisList s \<noteq> [] \<and> truthy (js_opt (riskAnalysisResponse s) (ustr ''all_companies'')))
   \<and> (index \<noteq> 0 \<and> index \<noteq> 1 \<and> index \<noteq> 2 \<and> index \<noteq> 3 \<longrightarrow> canNavigateToStep s index = JBool False)
   \<and> (currentStep s = 0 \<longrightarrow>
        (canProceedStep s = Inr (JBool True) \<longleftrightarrow>
           truthy (js_opt (js_opt (filterResponse s) (ustr ''companies'')) (ustr ''qualified''))
           \<and> js_gt0 (js_prop (js_opt (js_opt (filterResponse s) (ustr ''companies'')) (ustr ''qualified''))
                 (ustr ''length'')) = Inr True)
        \<and> (\<forall>xs. js_opt (js_opt (filterResponse s) (ustr ''companies'')) (ustr ''qualified'') = JArr xs
              \<longrightarrow> canProceedStep s = Inr (JBool (xs \<noteq> [])))
        \<and> (\<not> truthy (js_opt (js_opt (filterResponse s) (ustr ''companies'')) (ustr ''qualified''))
              \<longrightarrow> (\<exists>w. canProceedStep s = Inr w \<and> \<not> truthy w))
        \<and> (\<forall>w. canProceedStep s = Inr w \<longrightarrow> (truthy w \<longleftrightarrow> w = JBool True)))
   \<and> (currentStep s = 1 \<longrightarrow>
        (canProceedStep s = Inr (JBool True) \<longleftrightarrow>
           truthy (js_opt (screeningResponse s) (ustr ''company_details''))
           \<and> js_gt0 (js_prop (js_opt (screeningResponse s) (ustr ''company_details''))
                 (ustr ''length'')) = Inr True)
        \<and> (\<forall>xs. js_opt (screeningResponse s) (ustr ''company_details'') = JArr xs
              \<longrightarrow> canProceedStep s = Inr (JBool (xs \<noteq> [])))
        \<and> (\<not> truthy (js_opt (screeningResponse s) (ustr ''company_details''))
              \<longrightarrow> (\<exists>w. canProceedStep s = Inr w \<and> \<not> truthy w))
        \<and> (\<forall>w. canProceedStep s = Inr w \<longrightarrow> (truthy w \<longleftrightarrow> w = JBool True)))
   \<and> (currentStep s = 2 \<longrightarrow>
        (canProceedStep s = Inr (JBool True) \<longleftrightarrow>
           truthy (js_opt (riskAnalysisResponse s) (ustr ''all_companies''))
           \<and> js_gt0 (js_prop (js_opt (riskAnalysisResponse s) (ustr ''all_companies''))
                 (ustr ''length'')) = Inr True)
        \<and> (\<forall>xs. js_opt (riskAnalysisResponse s) (ustr ''all_companies'') = JArr xs
              \<longrightarrow> canProceedStep s = Inr (JBool (xs \<noteq> [])))
        \<and> (\<not> truthy (js_opt (riskAnalysisResponse s) (ustr ''all_companies''))
              \<longrightarrow> (\<exists>w. canProceedStep s = Inr w \<and> \<not> truthy w))
        \<and> (\<forall>w. canProceedStep s = Inr w \<longrightarrow> (truthy w \<longleftrightarrow> w = JBool True)))
   \<and> (currentStep s = 3 \<longrightarrow> canProceedStep s = Inr (JBool True))
   \<and> (currentStep s \<noteq> 0 \<and> currentStep s \<noteq> 1 \<and> currentStep s \<noteq> 2 \<and> currentStep s \<noteq> 3
        \<longrightarrow> canProceedStep s = Inr (JBool False))"
proof -
  have n0: "canNavigateToStep s 0 = JBool True"
    by (simp add: canNavigateToStep_def)
  have n1: "truthy (canNavigateToStep s 1) \<longleftrightarrow>
        sourcingList s \<noteq> []
        \<and> truthy (js_opt (js_opt (filterResponse s) (ustr ''companies'')) (ustr ''qualified''))"
    by (simp add: canNavigateToStep_def truthy_js_and)
  have n2: "truthy (canNavigateToStep s 2) \<longleftrightarrow>
        screeningList s \<noteq> [] \<and> truthy (js_opt (screeningResponse s) (ustr ''company_details''))"
    by (simp add: canNavigateToStep_def truthy_js_and)
  have n3: "truthy (canNavigateToStep s 3) \<longleftrightarrow>
        riskAnalysisList s \<noteq> [] \<and> truthy (js_opt (riskAnalysisResponse s) (ustr ''all_companies''))"
    by (simp add: canNavigateToStep_def truthy_js_and)
  have n4: "index \<noteq> 0 \<and> index \<noteq> 1 \<and> index \<noteq> 2 \<and> index \<noteq> 3 \<longrightarrow> canNavigateToStep s index = JBool False"
    by (simp add: canNavigateToStep_def)
  have p0: "currentStep s = 0 \<longrightarrow>
        (canProceedStep s = Inr (JBool True) \<longleftrightarrow>
           truthy (js_opt (js_opt (filterResponse s) (ustr ''companies'')) (ustr ''qualified''))
           \<and> js_gt0 (js_prop (js_opt (js_opt (filterResponse s) (ustr ''companies'')) (ustr ''qualified''))
                 (ustr ''length'')) = Inr True)
        \<and> (\<forall>xs. js_opt (js_opt (filterResponse s) (ustr ''companies'')) (ustr ''qualified'') = JArr xs
              \<longrightarrow> canProceedStep s = Inr (JBool (xs \<noteq> [])))
        \<and> (\<not> truthy (js_opt (js_opt (filterResponse s) (ustr ''companies'')) (ustr ''qualified''))
              \<longrightarrow> (\<exists>w. canProceedStep s = Inr w \<and> \<not> truthy w))
        \<and> (\<forall>w. canProceedStep s = Inr w \<longrightarrow> (truthy w \<longleftrightarrow> w = JBool True))"
  proof
    assume c: "currentStep s = 0"
    show "(canProceedStep s = Inr (JBool True) \<longleftrightarrow>
           truthy (js_opt (js_opt (filterResponse s) (ustr ''companies'')) (ustr ''qualified''))
           \<and> js_gt0 (js_prop (js_opt (js_opt (filterResponse s) (ustr ''companies'')) (ustr ''qualified''))
                 (ustr ''length'')) = Inr True)
        \<and> (\<forall>xs. js_opt (js_opt (filterResponse s) (ustr ''companies'')) (ustr ''qualified'') = JArr xs
              \<longrightarrow> canProceedStep s = Inr (JBool (xs \<noteq> [])))
        \<and> (\<not> truthy (js_opt (js_opt (filterResponse s) (ustr ''companies'')) (ustr ''qualified''))
              \<longrightarrow> (\<exists>w. canProceedStep s = Inr w \<and> \<not> truthy w))
        \<and> (\<forall>w. canProceedStep s = Inr w \<longrightarrow> (truthy w \<longleftrightarrow> w = JBool True))"
    proof (rule proceed_cases)
      show "canProceedStep s =
        (if truthy (js_opt (js_opt (filterResponse s) (ustr ''companies'')) (ustr ''qualified''))
         then length_gt0 (js_opt (js_opt (filterResponse s) (ustr ''companies'')) (ustr ''qualified''))
         else Inr (js_and (js_and (filterResponse s) (js_prop (filterResponse s) (ustr ''companies'')))
                 (js_prop (js_prop (filterResponse s) (ustr ''companies'')) (ustr ''qualified''))))"
        using c unfolding canProceedStep_def proceed_chain2 by simp
    next
      assume "\<not> truthy (js_opt (js_opt (filterResponse s) (ustr ''companies'')) (ustr ''qualified''))"
      then show "\<not> truthy (js_and (js_and (filterResponse s) (js_prop (filterResponse s) (ustr ''companies'')))
                 (js_prop (js_prop (filterResponse s) (ustr ''companies'')) (ustr ''qualified'')))"
        unfolding guard_chain2 .
    qed
  qed
  have p1: "currentStep s = 1 \<longrightarrow>
        (canProceedStep s = Inr (JBool True) \<longleftrightarrow>
           truthy (js_opt (screeningResponse s) (ustr ''company_details''))
           \<and> js_gt0 (js_prop (js_opt (screeningResponse s) (ustr ''company_details''))
                 (ustr ''length'')) = Inr True)
        \<and> (\<forall>xs. js_opt (screeningResponse s) (ustr ''company_details'') = JArr xs
              \<longrightarrow> canProceedStep s = Inr (JBool (xs \<noteq> [])))
        \<and> (\<not> truthy (js_opt (screeningResponse s) (ustr ''company_details''))
              \<longrightarrow> (\<exists>w. canProceedStep s = Inr w \<and> \<not> truthy w))
        \<and> (\<forall>w. canProceedStep s = Inr w \<longrightarrow> (truthy w \<longleftrightarrow> w = JBool True))"
  proof
    assume c: "currentStep s = 1"
    show "(canProceedStep s = Inr (JBool True) \<longleftrightarrow>
           truthy (js_opt (screeningResponse s) (ustr ''company_details''))
           \<and> js_gt0 (js_prop (js_opt (screeningResponse s) (ustr ''company_details''))
                 (ustr ''length'')) = Inr True)
        \<and> (\<forall>xs. js_opt (screeningResponse s) (ustr ''company_details'') = JArr xs
              \<longrightarrow> canProceedStep s = Inr (JBool (xs \<noteq> [])))
        \<and> (\<not> truthy (js_opt (screeningResponse s) (ustr ''company_details''))
              \<longrightarrow> (\<exists>w. canProceedStep s = Inr w \<and> \<not> truthy w))
        \<and> (\<forall>w. canProceedStep s = Inr w \<longrightarrow> (truthy w \<longleftrightarrow> w = JBool True))"
    proof (rule proceed_cases)
      show "canProceedStep s =
        (if truthy (js_opt (screeningResponse s) (ustr ''company_details''))
         then length_gt0 (js_opt (screeningResponse s) (ustr ''company_details''))
         else Inr (js_and (screeningResponse s) (js_prop (screeningResponse s) (ustr ''company_details''))))"
        using c unfolding canProceedStep_def proceed_chain1 by simp
    next
      assume "\<not> truthy (js_opt (screeningResponse s) (ustr ''company_details''))"
      then show "\<not> truthy (js_and (screeningResponse s) (js_prop (screeningResponse s) (ustr ''company_details'')))"
        unfolding guard_chain1 .
    qed
  qed
  have p2: "currentStep s = 2 \<longrightarrow>
        (canProceedStep s = Inr (JBool True) \<longleftrightarrow>
           truthy (js_opt (riskAnalysisResponse s) (ustr ''all_companies''))
           \<and> js_gt0 (js_prop (js_opt (riskAnalysisResponse s) (ustr ''all_companies''))
                 (ustr ''length'')) = Inr True)
        \<and> (\<forall>xs. js_opt (riskAnalysisResponse s) (ustr ''all_companies'') = JArr xs
              \<longrightarrow> canProceedStep s = Inr (JBool (xs \<noteq> [])))
        \<and> (\<not> truthy (js_opt (riskAnalysisResponse s) (ustr ''all_companies''))
              \<longrightarrow> (\<exists>w. canProceedStep s = Inr w \<and> \<not> truthy w))
        \<and> (\<forall>w. canProceedStep s = Inr w \<longrightarrow> (truthy w \<longleftrightarrow> w = JBool True))"
  proof
    assume c: "currentStep s = 2"
    show "(canProceedStep s = Inr (JBool True) \<longleftrightarrow>
           truthy (js_opt (riskAnalysisResponse s) (ustr ''all_companies''))
           \<and> js_gt0 (js_prop (js_opt (riskAnalysisResponse s) (ustr ''all_companies''))
                 (ustr ''length'')) = Inr True)
        \<and> (\<forall>xs. js_opt (riskAnalysisResponse s) (ustr ''all_companies'') = JArr xs
              \<longrightarrow> canProceedStep s = Inr (JBool (xs \<noteq> [])))
        \<and> (\<not> truthy (js_opt (riskAnalysisResponse s) (ustr ''all_companies''))
              \<longrightarrow> (\<exists>w. canProceedStep s = Inr w \<and> \<not> truthy w))
        \<and> (\<forall>w. canProceedStep s = Inr w \<longrightarrow> (truthy w \<longleftrightarrow> w = JBool True))"
    proof (rule proceed_cases)
      show "canProceedStep s =
        (if truthy (js_opt (riskAnalysisResponse s) (ustr ''all_companies''))
         then length_gt0 (js_opt (riskAnalysisResponse s) (ustr ''all_companies''))
         else Inr (js_and (riskAnalysisResponse s) (js_prop (riskAnalysisResponse s) (ustr ''all_companies''))))"
        using c unfolding canProceedStep_def proceed_chain1 by simp
    next
      assume "\<not> truthy (js_opt (riskAnalysisResponse s) (ustr ''all_companies''))"
      then show "\<not> truthy (js_and (riskAnalysisResponse s) (js_prop (riskAnalysisResponse s) (ustr ''all_companies'')))"
        unfolding guard_chain1 .
    qed
  qed
  have p3: "currentStep s = 3 \<longrightarrow> canProceedStep s = Inr (JBool True)"
    by (simp add: canProceedStep_def)
  have p4: "currentStep s \<noteq> 0 \<and> currentStep s \<noteq> 1 \<and> currentStep s \<noteq> 2 \<and> currentStep s \<noteq> 3
        \<longrightarrow> canProceedStep s = Inr (JBool False)"
    by (simp add: canProceedStep_def)
  show ?thesis
    by (intro conjI n0 n1 n2 n3 n4 p0 p1 p2 p3 p4)
qed

theorem step_gating_witness:
  "canProceedStep
     ((initial_state [num 1] [] [])
        \<lparr>filterResponse := JObj [(ustr ''companies'', JObj [(ustr ''qualified'', JArr [num 7])])]\<rparr>)
     = Inr (JBool True)
   \<and> truthy (canNavigateToStep
     ((initial_state [num 1] [] [])
        \<lparr>filterResponse := JObj [(ustr ''companies'', JObj [(ustr ''qualified'', JArr [num 7])])]\<rparr>) 1)
   \<and> \<not> truthy (canNavigateToStep
     ((initial_state [num 1] [] [])
        \<lparr>filterResponse := JObj [(ustr ''companies'', JObj [(ustr ''qualified'', JArr [num 7])])]\<rparr>) 2)
   \<and> canNavigateToStep
     ((initial_state [num 1] [] [])
        \<lparr>filterResponse := JObj [(ustr ''companies'', JObj [(ustr ''qualified'', JArr [num 7])])]\<rparr>) 7
     = JBool False"
proof -
  let ?s = "(initial_state [num 1] [] [])
        \<lparr>filterResponse := JObj [(ustr ''companies'', JObj [(ustr ''qualified'', JArr [num 7])])]\<rparr>"
  have q: "js_opt (js_opt (filterResponse ?s) (ustr ''companies'')) (ustr ''qualified'') = JArr [num 7]"
    by (simp add: js_opt_def ustr_eq_iff)
  have c: "currentStep ?s = 0" and l: "sourcingList ?s \<noteq> []" and l2: "screeningList ?s = []"
    by (simp_all add: initial_state_def)
  have i: "(7::int) \<noteq> 0 \<and> (7::int) \<noteq> 1 \<and> (7::int) \<noteq> 2 \<and> (7::int) \<noteq> 3"
    by simp
  from step_gating [of ?s 7] c l l2 i show ?thesis
    unfolding q by simp
qed

text \<open>
  The comparison of \<^verbatim>\<open>canProceedStep\<close> converts a length that is not a number as
  JavaScript does. A sourcing result \<^verbatim>\<open>{"qualified": {"length": "1e3"}}\<close> lets the wizard
  proceed, as do the lengths \<^verbatim>\<open>"0x10"\<close>, \<^verbatim>\<open>" 1.5 "\<close> and \<^verbatim>\<open>"Infinity"\<close>; the lengths
  \<^verbatim>\<open>"-1"\<close> and \<^verbatim>\<open>"abc"\<close> do not; and a length \<^verbatim>\<open>{"toString": 1}\<close> raises.
\<close>

lemma string_gt0_examples:
  "string_gt0 (ustr ''1e3'') \<and> string_gt0 (ustr ''0x10'') \<and> string_gt0 (ustr '' 1.5 '')
   \<and> string_gt0 (ustr ''Infinity'') \<and> \<not> string_gt0 (ustr ''-1'') \<and> \<not> string_gt0 (ustr ''abc'')"
  by (simp add: string_gt0_def ustr_def trim_def is_space_def unsigned_gt0_def unsigned_decimal_def
     is_digit_def is_hex_digit_def exponent_part_def digits_value_def rounds_positive_def Let_def)

lemma canProceedStep_of_length:
  "canProceedStep
     ((initial_state a b c)
        \<lparr>filterResponse := JObj [(ustr ''companies'',
            JObj [(ustr ''qualified'', JObj [(ustr ''length'', v)])])]\<rparr>)
   = (case js_gt0 v of Inl e \<Rightarrow> Inl e | Inr r \<Rightarrow> Inr (JBool r))"
  by (simp add: canProceedStep_def initial_state_def js_and_r_def length_gt0_def ustr_eq_iff)

lemma canProceedStep_conversions:
  "canProceedStep
     ((initial_state [] [] [])
        \<lparr>filterResponse := JObj [(ustr ''companies'',
            JObj [(ustr ''qualified'', JObj [(ustr ''length'', JStr (ustr ''1e3''))])])]\<rparr>)
     = Inr (JBool True)
   \<and> canProceedStep
     ((initial_state [] [] [])
        \<lparr>filterResponse := JObj [(ustr ''companies'',
            JObj [(ustr ''qualified'', JObj [(ustr ''length'', JStr (ustr ''0x10''))])])]\<rparr>)
     = Inr (JBool True)
   \<and> canProceedStep
     ((initial_state [] [] [])
        \<lparr>filterResponse := JObj [(ustr ''companies'',
            JObj [(ustr ''qualified'', JObj [(ustr ''length'', JStr (ustr ''abc''))])])]\<rparr>)
     = Inr (JBool False)
   \<and> canProceedStep
     ((initial_state [] [] [])
        \<lparr>filterResponse := JObj [(ustr ''companies'',
            JObj [(ustr ''qualified'', JObj [(ustr ''length'', JObj [(ustr ''toString'', num 1)])])])]\<rparr>)
     = Inl TypeError"
  unfolding canProceedStep_of_length by (simp add: string_gt0_examples)

section \<open>Resetting a step: the property\<close>

text \<open>
  C7. \<^verbatim>\<open>handleResetStep(i)\<close> for i = 0, 1, 2 clears the responses, the report file path,
  the streamed events and the completed marks of step i and of every later step through
  step 3, and sets \<^verbatim>\<open>currentStep\<close> to i; the responses of the earlier steps stay:
  resetting step 1 leaves \<^verbatim>\<open>filterResponse\<close>, resetting step 2 leaves \<^verbatim>\<open>filterResponse\<close>
  and \<^verbatim>\<open>screeningResponse\<close>. The streamed events and the completed marks of the
  earlier steps stay as well.
\<close>

theorem handleResetStep_cascade:
  "filterResponse (handleResetStep 0 s) = JNull
   \<and> screeningResponse (handleResetStep 0 s) = JNull
   \<and> riskAnalysisResponse (handleResetStep 0 s) = JNull
   \<and> reportResponse (handleResetStep 0 s) = JNull
   \<and> reportFilePath (handleResetStep 0 s) = JNull
   \<and> (\<forall>k. streamedEventsByStep (handleResetStep 0 s) k = [])
   \<and> completedSteps (handleResetStep 0 s) = completedSteps s - {0, 1, 2, 3}
   \<and> currentStep (handleResetStep 0 s) = 0
   \<and> filterResponse (handleResetStep 1 s) = filterResponse s
   \<and> screeningResponse (handleResetStep 1 s) = JNull
   \<and> riskAnalysisResponse (handleResetStep 1 s) = JNull
   \<and> reportResponse (handleResetStep 1 s) = JNull
   \<and> reportFilePath (handleResetStep 1 s) = JNull
   \<and> streamedEventsByStep (handleResetStep 1 s) =
        (\<lambda>k. if k = 1 \<or> k = 2 \<or> k = 3 then [] else streamedEventsByStep s k)
   \<and> completedSteps (handleResetStep 1 s) = completedSteps s - {1, 2, 3}
   \<and> currentStep (handleResetStep 1 s) = 1
   \<and> filterResponse (handleResetStep 2 s) = filterResponse s
   \<and> screeningResponse (handleResetStep 2 s) = screeningResponse s
   \<and> riskAnalysisResponse (handleResetStep 2 s) = JNull
   \<and> reportResponse (handleResetStep 2 s) = JNull
   \<and> reportFilePath (handleResetStep 2 s) = JNull
   \<and> streamedEventsByStep (handleResetStep 2 s) =
        (\<lambda>k. if k = 2 \<or> k = 3 then [] else streamedEventsByStep s k)
   \<and> completedSteps (handleResetStep 2 s) = completedSteps s - {2, 3}
   \<and> currentStep (handleResetStep 2 s) = 2"
proof -
  have r0: "handleResetStep 0 s =
      s\<lparr>filterResponse := JNull, screeningResponse := JNull, riskAnalysisResponse := JNull,
             reportResponse := JNull, reportFilePath := JNull, isSubmitting := False,
             showStreamingPanel := False, streamedEventsByStep := (\<lambda>_. []),
             selectedCompanies := (\<lambda>_. False), expandedScreeningResults := (\<lambda>_. False),
             completedSteps := completedSteps s - {0} - {1} - {2} - {3},
             currentStep := 0, showAccordionStep := None\<rparr>"
    by (simp add: handleResetStep_def)
  have r1: "handleResetStep 1 s =
      s\<lparr>screeningResponse := JNull, expandedScreeningResults := (\<lambda>_. False),
        selectedCompanies := (\<lambda>_. False),
        riskAnalysisResponse := JNull, reportResponse := JNull, reportFilePath := JNull,
        showStreamingPanel := False,
        streamedEventsByStep := (streamedEventsByStep s)(1 := [], 2 := [], 3 := []),
        completedSteps := completedSteps s - {1} - {2} - {3},
        currentStep := 1, showAccordionStep := None\<rparr>"
    by (simp add: handleResetStep_def resetScreening_def)
  have r2: "handleResetStep 2 s =
      s\<lparr>riskAnalysisResponse := JNull,
        reportResponse := JNull, reportFilePath := JNull, showStreamingPanel := False,
        streamedEventsByStep := (streamedEventsByStep s)(2 := [], 3 := []),
        completedSteps := completedSteps s - {2} - {3},
        currentStep := 2, showAccordionStep := None\<rparr>"
    by (simp add: handleResetStep_def resetRiskAnalysis_def)
  have c0: "completedSteps s - {0} - {1} - {2} - {3} = completedSteps s - {0, 1, 2, 3}"
    and c1: "completedSteps s - {1} - {2} - {3} = completedSteps s - {1, 2, 3}"
    and c2: "completedSteps s - {2} - {3} = completedSteps s - {2, 3}"
    by blast+
  have e1: "(streamedEventsByStep s)(1 := [], 2 := [], 3 := []) =
      (\<lambda>k. if k = 1 \<or> k = 2 \<or> k = 3 then [] else streamedEventsByStep s k)"
    and e2: "(streamedEventsByStep s)(2 := [], 3 := []) =
      (\<lambda>k. if k = 2 \<or> k = 3 then [] else streamedEventsByStep s k)"
    by (rule ext, simp)+
  show ?thesis
    unfolding r0 r1 r2 c0 c1 c2 e1 e2 by simp
qed

theorem handleResetStep_cascade_witness:
  "filterResponse (handleResetStep 1
      ((initial_state [] [] [])\<lparr>filterResponse := JBool True, screeningResponse := JBool True,
         completedSteps := {0, 1}, streamedEventsByStep := (\<lambda>k. [JBool True])\<rparr>)) = JBool True
   \<and> screeningResponse (handleResetStep 1
      ((initial_state [] [] [])\<lparr>filterResponse := JBool True, screeningResponse := JBool True,
         completedSteps := {0, 1}, streamedEventsByStep := (\<lambda>k. [JBool True])\<rparr>)) = JNull
   \<and> completedSteps (handleResetStep 1
      ((initial_state [] [] [])\<lparr>filterResponse := JBool True, screeningResponse := JBool True,
         completedSteps := {0, 1}, streamedEventsByStep := (\<lambda>k. [JBool True])\<rparr>)) = {0}
   \<and> streamedEventsByStep (handleResetStep 1
      ((initial_state [] [] [])\<lparr>filterResponse := JBool True, screeningResponse := JBool True,
         completedSteps := {0, 1}, streamedEventsByStep := (\<lambda>k. [JBool True])\<rparr>)) 0 = [JBool True]
   \<and> streamedEventsByStep (handleResetStep 1
      ((initial_state [] [] [])\<lparr>filterResponse := JBool True, screeningResponse := JBool True,
         completedSteps := {0, 1}, streamedEventsByStep := (\<lambda>k. [JBool True])\<rparr>)) 1 = []"
  using handleResetStep_cascade
    [of "(initial_state [] [] [])\<lparr>filterResponse := JBool True, screeningResponse := JBool True,
         completedSteps := {0, 1}, streamedEventsByStep := (\<lambda>k. [JBool True])\<rparr>"]
  by (auto simp: initial_state_def)

section \<open>The WebSocket handlers: the properties\<close>

lemma collect_thinking_frame:
  "streamedEventsByStep (collect_thinking e s) = streamedEventsByStep s"
  "completedSteps (collect_thinking e s) = completedSteps s"
  "ws_closed (collect_thinking e s) = ws_closed s"
  "screeningResponse (collect_thinking e s) = screeningResponse s"
  "aggregatedThinkingByStep (collect_thinking e s) = aggregatedThinkingByStep s"
  "lastProcessedStreamingCountByStep (collect_thinking e s) = lastProcessedStreamingCountByStep s"
  by (simp_all add: collect_thinking_def split: jsval.splits)

lemma append_event_frame:
  "streamedEventsByStep (append_event k e s) =
     (streamedEventsByStep s)(k := streamedEventsByStep s k @ [e])"
  "completedSteps (append_event k e s) = completedSteps s"
  "ws_closed (append_event k e s) = ws_closed s"
  "filterResponse (append_event k e s) = filterResponse s"
  "screeningResponse (append_event k e s) = screeningResponse s"
  "riskAnalysisResponse (append_event k e s) = riskAnalysisResponse s"
  "reportResponse (append_event k e s) = reportResponse s"
  "aggregatedThinkingByStep (append_event k e s) = aggregatedThinkingByStep s"
  "lastProcessedStreamingCountByStep (append_event k e s) = lastProcessedStreamingCountByStep s"
  by (simp_all add: append_event_def)

lemma company_is_safe_ok:
  "(\<exists>b. company_is_safe c = Inr b) \<longleftrightarrow> \<not> nullish c \<and> stringable (overall_of c)"
  using js_String_stringable [of "overall_of c"]
  by (auto simp: company_is_safe_def split: sum.splits)

lemma safe_all_ok:
  "(\<exists>bs. first_error (map company_is_safe cs) = Inr bs)
   \<longleftrightarrow> list_all (\<lambda>c. \<not> nullish c \<and> stringable (overall_of c)) cs"
  unfolding first_error_ok list_all_iff using company_is_safe_ok by auto

lemma count_passed_array:
  "(\<exists>n. count_passed (JArr cs) = Inr n)
   \<longleftrightarrow> list_all (\<lambda>c. \<not> nullish c \<and> stringable (overall_of c)) cs"
  unfolding safe_all_ok [symmetric]
  by (cases "first_error (map company_is_safe cs)") (simp_all add: count_passed_def)

lemma count_passed_ok:
  "(\<exists>n. count_passed r = Inr n) \<longleftrightarrow>
     (case r of JArr cs \<Rightarrow> list_all (\<lambda>c. \<not> nullish c \<and> stringable (overall_of c)) cs
      | _ \<Rightarrow> False)"
proof (cases r)
  case (JArr cs)
  then show ?thesis
    using count_passed_array [of cs] by simp
qed (simp_all add: count_passed_def)

lemma sourcing_streamed:
  "streamedEventsByStep (snd (handleSourceCompanies_onmessage (Parsed e) s)) =
     (streamedEventsByStep s)(0 := streamedEventsByStep s 0 @ [e])"
  by (simp add: handleSourceCompanies_onmessage_def Let_def append_event_frame
      split: sum.splits)

lemma screening_streamed:
  "streamedEventsByStep (snd (handleScreenCompanies_onmessage (Parsed e) s)) =
     (streamedEventsByStep s)(1 := streamedEventsByStep s 1 @ [e])"
  by (simp add: handleScreenCompanies_onmessage_def Let_def append_event_frame
      collect_thinking_frame)

lemma risk_streamed:
  "streamedEventsByStep (snd (handleAnalyzeRisk_onmessage (Parsed e) s)) =
     (streamedEventsByStep s)(2 := streamedEventsByStep s 2 @ [e])"
  by (simp add: handleAnalyzeRisk_onmessage_def Let_def append_event_frame split: sum.splits)

lemma report_streamed:
  "streamedEventsByStep (snd (handleGenerateReport_onmessage (Parsed e) s)) =
     (streamedEventsByStep s)(3 := streamedEventsByStep s 3 @ [e])"
  by (simp add: handleGenerateReport_onmessage_def Let_def append_event_frame)

lemma parse_failure_unchanged:
  "snd (handleSourceCompanies_onmessage ParseFailure s) = s"
  "snd (handleScreenCompanies_onmessage ParseFailure s) = s"
  "snd (handleAnalyzeRisk_onmessage ParseFailure s) = s"
  "snd (handleGenerateReport_onmessage ParseFailure s) = s"
  by (simp_all add: handleSourceCompanies_onmessage_def handleScreenCompanies_onmessage_def
      handleAnalyzeRisk_onmessage_def handleGenerateReport_onmessage_def)

lemma onmessage_streamed:
  "k = 0 \<or> k = 1 \<or> k = 2 \<or> k = 3 \<Longrightarrow>
   streamedEventsByStep (snd (onmessage k (Parsed e) s)) =
     (streamedEventsByStep s)(k := streamedEventsByStep s k @ [e])"
  by (auto simp: onmessage_def sourcing_streamed screening_streamed risk_streamed report_streamed)

lemma onmessage_failure: "snd (onmessage k ParseFailure s) = s"
  by (simp add: onmessage_def parse_failure_unchanged)

lemma run_messages_streamed:
  "\<forall>m\<in>set ms. fst m = 0 \<or> fst m = 1 \<or> fst m = 2 \<or> fst m = 3 \<Longrightarrow>
   streamedEventsByStep (run_messages ms s) j = streamedEventsByStep s j @ events_of j ms"
proof (induction ms arbitrary: s)
  case Nil
  show ?case by simp
next
  case (Cons m ms)
  obtain k p where m: "m = (k, p)" by (cases m)
  from Cons.prems m have k: "k = 0 \<or> k = 1 \<or> k = 2 \<or> k = 3" by simp
  from Cons.prems have rest: "\<forall>m\<in>set ms. fst m = 0 \<or> fst m = 1 \<or> fst m = 2 \<or> fst m = 3"
    by simp
  have ih: "streamedEventsByStep (run_messages ms (snd (onmessage k p s))) j =
      streamedEventsByStep (snd (onmessage k p s)) j @ events_of j ms"
    by (rule Cons.IH [OF rest])
  show ?case
  proof (cases p)
    case ParseFailure
    with m ih show ?thesis by (simp add: onmessage_failure)
  next
    case (Parsed e)
    with m ih k show ?thesis by (simp add: onmessage_streamed)
  qed
qed


lemma sourcing_complete:
  assumes c: "completion_event 0 e"
  shows "truthy (filterResponse (snd (handleSourceCompanies_onmessage (Parsed e) s)))
    \<and> js_opt (js_opt (filterResponse (snd (handleSourceCompanies_onmessage (Parsed e) s)))
           (ustr ''companies'')) (ustr ''qualified'')
         = js_or (js_prop (js_prop e (ustr ''result'')) (ustr ''qualified'')) (JArr [])
    \<and> completedSteps (snd (handleSourceCompanies_onmessage (Parsed e) s))
         = insert 0 (completedSteps s)
    \<and> ws_closed (snd (handleSourceCompanies_onmessage (Parsed e) s))
         = (if stringable (sourced_count e) then (ws_closed s)(0 := True) else ws_closed s)"
proof (cases "js_String (sourced_count e)")
  case (Inl x)
  with js_String_stringable [of "sourced_count e"] have n: "\<not> stringable (sourced_count e)"
    by simp
  from c Inl n show ?thesis
    by (simp add: completion_event_def handleSourceCompanies_onmessage_def Let_def
        append_event_frame js_opt_def ustr_eq_iff)
next
  case (Inr t)
  with js_String_stringable [of "sourced_count e"] have n: "stringable (sourced_count e)"
    by auto
  from c Inr n show ?thesis
    by (simp add: completion_event_def handleSourceCompanies_onmessage_def Let_def
        append_event_frame js_opt_def ustr_eq_iff)
qed

lemma sourcing_other:
  assumes "\<not> completion_event 0 e"
  shows "filterResponse (snd (handleSourceCompanies_onmessage (Parsed e) s)) = filterResponse s"
    and "completedSteps (snd (handleSourceCompanies_onmessage (Parsed e) s)) = completedSteps s"
    and "ws_closed (snd (handleSourceCompanies_onmessage (Parsed e) s)) = ws_closed s"
  using assms
  by (auto simp: completion_event_def handleSourceCompanies_onmessage_def Let_def
      append_event_frame)

lemma screening_complete:
  assumes "completion_event 1 e"
  shows "truthy (screeningResponse (snd (handleScreenCompanies_onmessage (Parsed e) s)))"
    and "js_prop (screeningResponse (snd (handleScreenCompanies_onmessage (Parsed e) s)))
           (ustr ''agent_thinking'')
         = JArr (map JStr (agentThinkingSteps (snd (handleScreenCompanies_onmessage (Parsed e) s))))"
    and "completedSteps (snd (handleScreenCompanies_onmessage (Parsed e) s))
         = insert 1 (completedSteps s)"
    and "ws_closed (snd (handleScreenCompanies_onmessage (Parsed e) s)) = (ws_closed s)(1 := True)"
  using assms
  by (simp_all add: completion_event_def handleScreenCompanies_onmessage_def Let_def
      append_event_frame collect_thinking_frame update_conv' ustr_eq_iff)

lemma screening_other:
  assumes "\<not> completion_event 1 e"
  shows "screeningResponse (snd (handleScreenCompanies_onmessage (Parsed e) s)) = screeningResponse s"
    and "completedSteps (snd (handleScreenCompanies_onmessage (Parsed e) s)) = completedSteps s"
    and "ws_closed (snd (handleScreenCompanies_onmessage (Parsed e) s)) = ws_closed s"
  using assms
  by (auto simp: completion_event_def handleScreenCompanies_onmessage_def Let_def
      append_event_frame collect_thinking_frame)

lemma completion_risk_iff:
  "completion_event 2 e \<longleftrightarrow>
     \<not> nullish e \<and> js_prop e (ustr ''type'') = JStr (ustr ''session_complete'')
     \<and> truthy (js_prop e (ustr ''results''))
     \<and> (\<exists>n. count_passed (js_prop e (ustr ''results'')) = Inr n)"
  unfolding count_passed_ok completion_event_def
  by (cases "js_prop e (ustr ''results'')") simp_all

lemma risk_complete:
  assumes "completion_event 2 e"
  shows "truthy (riskAnalysisResponse (snd (handleAnalyzeRisk_onmessage (Parsed e) s)))"
    and "js_prop (riskAnalysisResponse (snd (handleAnalyzeRisk_onmessage (Parsed e) s)))
           (ustr ''all_companies'') = js_prop e (ustr ''results'')"
    and "completedSteps (snd (handleAnalyzeRisk_onmessage (Parsed e) s))
         = insert 2 (completedSteps s)"
    and "ws_closed (snd (handleAnalyzeRisk_onmessage (Parsed e) s)) = (ws_closed s)(2 := True)"
proof -
  from assms obtain n where
    a: "\<not> nullish e" "js_prop e (ustr ''type'') = JStr (ustr ''session_complete'')"
      "truthy (js_prop e (ustr ''results''))"
      "count_passed (js_prop e (ustr ''results'')) = Inr n"
    unfolding completion_risk_iff by blast
  then show "truthy (riskAnalysisResponse (snd (handleAnalyzeRisk_onmessage (Parsed e) s)))"
    and "js_prop (riskAnalysisResponse (snd (handleAnalyzeRisk_onmessage (Parsed e) s)))
           (ustr ''all_companies'') = js_prop e (ustr ''results'')"
    and "completedSteps (snd (handleAnalyzeRisk_onmessage (Parsed e) s))
         = insert 2 (completedSteps s)"
    and "ws_closed (snd (handleAnalyzeRisk_onmessage (Parsed e) s)) = (ws_closed s)(2 := True)"
    by (simp_all add: handleAnalyzeRisk_onmessage_def Let_def append_event_frame js_or_def)
qed

lemma risk_other:
  assumes "\<not> completion_event 2 e"
  shows "riskAnalysisResponse (snd (handleAnalyzeRisk_onmessage (Parsed e) s)) = riskAnalysisResponse s"
    and "completedSteps (snd (handleAnalyzeRisk_onmessage (Parsed e) s)) = completedSteps s"
    and "ws_closed (snd (handleAnalyzeRisk_onmessage (Parsed e) s)) = ws_closed s"
  using assms unfolding completion_risk_iff
  by (auto simp: handleAnalyzeRisk_onmessage_def Let_def append_event_frame js_or_def
      split: sum.splits)

lemma report_complete:
  assumes "completion_event 3 e"
  shows "reportResponse (snd (handleGenerateReport_onmessage (Parsed e) s)) = e"
    and "completedSteps (snd (handleGenerateReport_onmessage (Parsed e) s))
         = insert 3 (completedSteps s)"
    and "ws_closed (snd (handleGenerateReport_onmessage (Parsed e) s)) = (ws_closed s)(3 := True)"
  using assms
  by (simp_all add: completion_event_def handleGenerateReport_onmessage_def Let_def
      append_event_frame)

lemma report_other:
  assumes "\<not> completion_event 3 e"
  shows "reportResponse (snd (handleGenerateReport_onmessage (Parsed e) s)) = reportResponse s"
    and "completedSteps (snd (handleGenerateReport_onmessage (Parsed e) s)) = completedSteps s"
    and "ws_closed (snd (handleGenerateReport_onmessage (Parsed e) s)) = ws_closed s"
  using assms
  by (auto simp: completion_event_def handleGenerateReport_onmessage_def Let_def
      append_event_frame)

text \<open>
  C2 (as amended). For every step's message handler, the response of the step is set
  and the index of the step is added to \<^verbatim>\<open>completedSteps\<close> exactly when a message of
  the step's completion type arrives: \<^verbatim>\<open>analysis_complete\<close> with a result for sourcing,
  \<^verbatim>\<open>final_result\<close> with a content for screening, \<^verbatim>\<open>session_complete\<close> with results that
  are an array without \<^verbatim>\<open>null\<close> entries whose statuses convert to strings for risk
  analysis, \<^verbatim>\<open>report_complete\<close> for report generation. The socket is closed by the same
  messages, except that sourcing closes it only when the count of its success toast
  converts to a string. Every other message, and a message that does not parse, leaves
  the response of the step, \<^verbatim>\<open>completedSteps\<close> and the socket as they are. A value
  converts to a string unless it is, or as an array contains, an object with a
  property \<^verbatim>\<open>toString\<close> of its own.
\<close>

theorem completion_events:
  "(completion_event 0 e \<longrightarrow>
        truthy (filterResponse (snd (handleSourceCompanies_onmessage (Parsed e) s)))
        \<and> js_opt (js_opt (filterResponse (snd (handleSourceCompanies_onmessage (Parsed e) s)))
              (ustr ''companies'')) (ustr ''qualified'')
            = js_or (js_prop (js_prop e (ustr ''result'')) (ustr ''qualified'')) (JArr [])
        \<and> completedSteps (snd (handleSourceCompanies_onmessage (Parsed e) s)) = insert 0 (completedSteps s)
        \<and> ws_closed (snd (handleSourceCompanies_onmessage (Parsed e) s))
            = (if stringable (sourced_count e) then (ws_closed s)(0 := True) else ws_closed s))
   \<and> (\<not> completion_event 0 e \<longrightarrow>
        filterResponse (snd (handleSourceCompanies_onmessage (Parsed e) s)) = filterResponse s
        \<and> completedSteps (snd (handleSourceCompanies_onmessage (Parsed e) s)) = completedSteps s
        \<and> ws_closed (snd (handleSourceCompanies_onmessage (Parsed e) s)) = ws_closed s)
   \<and> (completion_event 1 e \<longrightarrow>
        truthy (screeningResponse (snd (handleScreenCompanies_onmessage (Parsed e) s)))
        \<and> js_prop (screeningResponse (snd (handleScreenCompanies_onmessage (Parsed e) s)))
              (ustr ''agent_thinking'')
            = JArr (map JStr (agentThinkingSteps (snd (handleScreenCompanies_onmessage (Parsed e) s))))
        \<and> completedSteps (snd (handleScreenCompanies_onmessage (Parsed e) s)) = insert 1 (completedSteps s)
        \<and> ws_closed (snd (handleScreenCompanies_onmessage (Parsed e) s)) = (ws_closed s)(1 := True))
   \<and> (\<not> completion_event 1 e \<longrightarrow>
        screeningResponse (snd (handleScreenCompanies_onmessage (Parsed e) s)) = screeningResponse s
        \<and> completedSteps (snd (handleScreenCompanies_onmessage (Parsed e) s)) = completedSteps s
        \<and> ws_closed (snd (handleScreenCompanies_onmessage (Parsed e) s)) = ws_closed s)
   \<and> (completion_event 2 e \<longrightarrow>
        truthy (riskAnalysisResponse (snd (handleAnalyzeRisk_onmessage (Parsed e) s)))
        \<and> js_prop (riskAnalysisResponse (snd (handleAnalyzeRisk_onmessage (Parsed e) s)))
              (ustr ''all_companies'') = js_prop e (ustr ''results'')
        \<and> completedSteps (snd (handleAnalyzeRisk_onmessage (Parsed e) s)) = insert 2 (completedSteps s)
        \<and> ws_closed (snd (handleAnalyzeRisk_onmessage (Parsed e) s)) = (ws_closed s)(2 := True))
   \<and> (\<not> completion_event 2 e \<longrightarrow>
        riskAnalysisResponse (snd (handleAnalyzeRisk_onmessage (Parsed e) s)) = riskAnalysisResponse s
        \<and> completedSteps (snd (handleAnalyzeRisk_onmessage (Parsed e) s)) = completedSteps s
        \<and> ws_closed (snd (handleAnalyzeRisk_onmessage (Parsed e) s)) = ws_closed s)
   \<and> (completion_event 3 e \<longrightarrow>
        reportResponse (snd (handleGenerateReport_onmessage (Parsed e) s)) = e
        \<and> completedSteps (snd (handleGenerateReport_onmessage (Parsed e) s)) = insert 3 (completedSteps s)
        \<and> ws_closed (snd (handleGenerateReport_onmessage (Parsed e) s)) = (ws_closed s)(3 := True))
   \<and> (\<not> completion_event 3 e \<longrightarrow>
        reportResponse (snd (handleGenerateReport_onmessage (Parsed e) s)) = reportResponse s
        \<and> completedSteps (snd (handleGenerateReport_onmessage (Parsed e) s)) = completedSteps s
        \<and> ws_closed (snd (handleGenerateReport_onmessage (Parsed e) s)) = ws_closed s)
   \<and> snd (handleSourceCompanies_onmessage ParseFailure s) = s
   \<and> snd (handleScreenCompanies_onmessage ParseFailure s) = s
   \<and> snd (handleAnalyzeRisk_onmessage ParseFailure s) = s
   \<and> snd (handleGenerateReport_onmessage ParseFailure s) = s
   \<and> (stringable v \<longleftrightarrow> (\<exists>t. js_String v = Inr t))
   \<and> (stringable (JObj kvs) \<longleftrightarrow> ustr ''toString'' \<notin> fst ` set kvs)
   \<and> (stringable (JArr xs) \<longleftrightarrow> (\<forall>x\<in>set xs. nullish x \<or> stringable x))
   \<and> stringable JUndefined \<and> stringable JNull \<and> stringable (JBool b) \<and> stringable (JNum t)
   \<and> stringable (JStr t)"
proof -
  have c0: "(completion_event 0 e \<longrightarrow>
        truthy (filterResponse (snd (handleSourceCompanies_onmessage (Parsed e) s)))
        \<and> js_opt (js_opt (filterResponse (snd (handleSourceCompanies_onmessage (Parsed e) s)))
              (ustr ''companies'')) (ustr ''qualified'')
            = js_or (js_prop (js_prop e (ustr ''result'')) (ustr ''qualified'')) (JArr [])
        \<and> completedSteps (snd (handleSourceCompanies_onmessage (Parsed e) s)) = insert 0 (completedSteps s)
        \<and> ws_closed (snd (handleSourceCompanies_onmessage (Parsed e) s))
            = (if stringable (sourced_count e) then (ws_closed s)(0 := True) else ws_closed s))"
    using sourcing_complete [of e s] by (rule impI)
  have o0: "(\<not> completion_event 0 e \<longrightarrow>
        filterResponse (snd (handleSourceCompanies_onmessage (Parsed e) s)) = filterResponse s
        \<and> completedSteps (snd (handleSourceCompanies_onmessage (Parsed e) s)) = completedSteps s
        \<and> ws_closed (snd (handleSourceCompanies_onmessage (Parsed e) s)) = ws_closed s)"
    by (simp add: sourcing_other)
  have c1: "(completion_event 1 e \<longrightarrow>
        truthy (screeningResponse (snd (handleScreenCompanies_onmessage (Parsed e) s)))
        \<and> js_prop (screeningResponse (snd (handleScreenCompanies_onmessage (Parsed e) s)))
              (ustr ''agent_thinking'')
            = JArr (map JStr (agentThinkingSteps (snd (handleScreenCompanies_onmessage (Parsed e) s))))
        \<and> completedSteps (snd (handleScreenCompanies_onmessage (Parsed e) s)) = insert 1 (completedSteps s)
        \<and> ws_closed (snd (handleScreenCompanies_onmessage (Parsed e) s)) = (ws_closed s)(1 := True))"
    by (simp add: screening_complete)
  have o1: "(\<not> completion_event 1 e \<longrightarrow>
        screeningResponse (snd (handleScreenCompanies_onmessage (Parsed e) s)) = screeningResponse s
        \<and> completedSteps (snd (handleScreenCompanies_onmessage (Parsed e) s)) = completedSteps s
        \<and> ws_closed (snd (handleScreenCompanies_onmessage (Parsed e) s)) = ws_closed s)"
    by (simp add: screening_other)
  have c2: "(completion_event 2 e \<longrightarrow>
        truthy (riskAnalysisResponse (snd (handleAnalyzeRisk_onmessage (Parsed e) s)))
        \<and> js_prop (riskAnalysisResponse (snd (handleAnalyzeRisk_onmessage (Parsed e) s)))
              (ustr ''all_companies'') = js_prop e (ustr ''results'')
        \<and> completedSteps (snd (handleAnalyzeRisk_onmessage (Parsed e) s)) = insert 2 (completedSteps s)
        \<and> ws_closed (snd (handleAnalyzeRisk_onmessage (Parsed e) s)) = (ws_closed s)(2 := True))"
    by (simp add: risk_complete)
  have o2: "(\<not> completion_event 2 e \<longrightarrow>
        riskAnalysisResponse (snd (handleAnalyzeRisk_onmessage (Parsed e) s)) = riskAnalysisResponse s
        \<and> completedSteps (snd (handleAnalyzeRisk_onmessage (Parsed e) s)) = completedSteps s
        \<and> ws_closed (snd (handleAnalyzeRisk_onmessage (Parsed e) s)) = ws_closed s)"
    by (simp add: risk_other)
  have c3: "(completion_event 3 e \<longrightarrow>
        reportResponse (snd (handleGenerateReport_onmessage (Parsed e) s)) = e
        \<and> completedSteps (snd (handleGenerateReport_onmessage (Parsed e) s)) = insert 3 (completedSteps s)
        \<and> ws_closed (snd (handleGenerateReport_onmessage (Parsed e) s)) = (ws_closed s)(3 := True))"
    by (simp add: report_complete)
  have o3: "(\<not> completion_event 3 e \<longrightarrow>
        reportResponse (snd (handleGenerateReport_onmessage (Parsed e) s)) = reportResponse s
        \<and> completedSteps (snd (handleGenerateReport_onmessage (Parsed e) s)) = completedSteps s
        \<and> ws_closed (snd (handleGenerateReport_onmessage (Parsed e) s)) = ws_closed s)"
    by (simp add: report_other)
  have s0: "stringable v \<longleftrightarrow> (\<exists>t. js_String v = Inr t)"
    by (simp add: js_String_stringable)
  have s1: "stringable (JObj kvs) \<longleftrightarrow> ustr ''toString'' \<notin> fst ` set kvs"
    by simp
  have s2: "stringable (JArr xs) \<longleftrightarrow> (\<forall>x\<in>set xs. nullish x \<or> stringable x)"
    by (simp add: list_all_iff)
  have s3: "stringable JUndefined" "stringable JNull" "stringable (JBool b)" "stringable (JNum t)"
    "stringable (JStr t)"
    by simp_all
  show ?thesis
    by (intro conjI c0 o0 c1 o1 c2 o2 c3 o3 parse_failure_unchanged s0 s1 s2 s3)
qed

theorem completion_events_witness:
  "truthy (riskAnalysisResponse (snd (handleAnalyzeRisk_onmessage
      (Parsed (JObj [(ustr ''type'', JStr (ustr ''session_complete'')),
                     (ustr ''results'', JArr [JObj [(ustr ''overall_result'', JStr (ustr ''SAFE''))]])]))
      (initial_state [] [] []))))
   \<and> completedSteps (snd (handleAnalyzeRisk_onmessage
      (Parsed (JObj [(ustr ''type'', JStr (ustr ''session_complete'')),
                     (ustr ''results'', JArr [JObj [(ustr ''overall_result'', JStr (ustr ''SAFE''))]])]))
      (initial_state [] [] []))) = {2}
   \<and> ws_closed (snd (handleAnalyzeRisk_onmessage
      (Parsed (JObj [(ustr ''type'', JStr (ustr ''session_complete'')),
                     (ustr ''results'', JArr [JObj [(ustr ''overall_result'', JStr (ustr ''SAFE''))]])]))
      (initial_state [] [] []))) 2
   \<and> filterResponse (snd (handleSourceCompanies_onmessage
      (Parsed (JObj [(ustr ''type'', JStr (ustr ''agent_thinking'')),
                     (ustr ''content'', JStr (ustr ''Filtering''))]))
      (initial_state [] [] []))) = JNull
   \<and> completedSteps (snd (handleSourceCompanies_onmessage
      (Parsed (JObj [(ustr ''type'', JStr (ustr ''agent_thinking'')),
                     (ustr ''content'', JStr (ustr ''Filtering''))]))
      (initial_state [] [] []))) = {}
   \<and> completedSteps (snd (handleSourceCompanies_onmessage
      (Parsed (JObj [(ustr ''type'', JStr (ustr ''analysis_complete'')),
                     (ustr ''result'', JObj [(ustr ''qualified'', JArr [JStr (ustr ''Acme'')])])]))
      (initial_state [] [] []))) = {0}
   \<and> ws_closed (snd (handleSourceCompanies_onmessage
      (Parsed (JObj [(ustr ''type'', JStr (ustr ''analysis_complete'')),
                     (ustr ''result'', JObj [(ustr ''qualified'', JArr [JStr (ustr ''Acme'')])])]))
      (initial_state [] [] []))) 0"
proof -
  let ?e = "JObj [(ustr ''type'', JStr (ustr ''session_complete'')),
                  (ustr ''results'', JArr [JObj [(ustr ''overall_result'', JStr (ustr ''SAFE''))]])]"
  let ?t = "JObj [(ustr ''type'', JStr (ustr ''agent_thinking'')),
                  (ustr ''content'', JStr (ustr ''Filtering''))]"
  let ?a = "JObj [(ustr ''type'', JStr (ustr ''analysis_complete'')),
                  (ustr ''result'', JObj [(ustr ''qualified'', JArr [JStr (ustr ''Acme'')])])]"
  have c: "completion_event 2 ?e"
    by (simp add: completion_event_def overall_of_def js_or_def ustr_eq_iff)
  have n: "\<not> completion_event 0 ?t"
    by (simp add: completion_event_def ustr_eq_iff)
  have a: "completion_event 0 ?a"
    by (simp add: completion_event_def ustr_eq_iff)
  have sa: "stringable (sourced_count ?a)"
    by (simp add: sourced_count_def js_opt_def js_or_def ustr_eq_iff stringable_num)
  have r: "truthy (riskAnalysisResponse (snd (handleAnalyzeRisk_onmessage (Parsed ?e) (initial_state [] [] []))))
    \<and> js_prop (riskAnalysisResponse (snd (handleAnalyzeRisk_onmessage (Parsed ?e) (initial_state [] [] []))))
          (ustr ''all_companies'') = js_prop ?e (ustr ''results'')
    \<and> completedSteps (snd (handleAnalyzeRisk_onmessage (Parsed ?e) (initial_state [] [] [])))
         = insert 2 (completedSteps (initial_state [] [] []))
    \<and> ws_closed (snd (handleAnalyzeRisk_onmessage (Parsed ?e) (initial_state [] [] [])))
         = (ws_closed (initial_state [] [] []))(2 := True)"
    by (rule completion_events [of ?e "initial_state [] [] []", THEN conjunct2, THEN conjunct2,
          THEN conjunct2, THEN conjunct2, THEN conjunct1, THEN mp, OF c])
  have o: "filterResponse (snd (handleSourceCompanies_onmessage (Parsed ?t) (initial_state [] [] [])))
         = filterResponse (initial_state [] [] [])
    \<and> completedSteps (snd (handleSourceCompanies_onmessage (Parsed ?t) (initial_state [] [] [])))
         = completedSteps (initial_state [] [] [])
    \<and> ws_closed (snd (handleSourceCompanies_onmessage (Parsed ?t) (initial_state [] [] [])))
         = ws_closed (initial_state [] [] [])"
    by (rule completion_events [of ?t "initial_state [] [] []", THEN conjunct2, THEN conjunct1,
          THEN mp, OF n])
  have q: "truthy (filterResponse (snd (handleSourceCompanies_onmessage (Parsed ?a) (initial_state [] [] []))))
    \<and> js_opt (js_opt (filterResponse (snd (handleSourceCompanies_onmessage (Parsed ?a) (initial_state [] [] []))))
          (ustr ''companies'')) (ustr ''qualified'')
        = js_or (js_prop (js_prop ?a (ustr ''result'')) (ustr ''qualified'')) (JArr [])
    \<and> completedSteps (snd (handleSourceCompanies_onmessage (Parsed ?a) (initial_state [] [] [])))
         = insert 0 (completedSteps (initial_state [] [] []))
    \<and> ws_closed (snd (handleSourceCompanies_onmessage (Parsed ?a) (initial_state [] [] [])))
         = (if stringable (sourced_count ?a) then (ws_closed (initial_state [] [] []))(0 := True)
            else ws_closed (initial_state [] [] []))"
    by (rule completion_events [of ?a "initial_state [] [] []", THEN conjunct1, THEN mp, OF a])
  have i: "completedSteps (initial_state [] [] []) = {}" "filterResponse (initial_state [] [] []) = JNull"
    by (simp_all add: initial_state_def)
  from r o q sa show ?thesis
    unfolding i by simp
qed

text \<open>
  The property as first stated asks of risk analysis only a \<^verbatim>\<open>session_complete\<close> with
  results. Results that are an object keyed by company are present, and
  \<^verbatim>\<open>rawResults.filter\<close> raises on them; results with a \<^verbatim>\<open>null\<close> entry, or with a status
  \<^verbatim>\<open>{"toString": 1}\<close>, make the callback of the filter raise. The handler's own \<^verbatim>\<open>catch\<close>
  logs the error, and neither the response nor \<^verbatim>\<open>completedSteps\<close> nor the socket changes.
  An \<^verbatim>\<open>analysis_complete\<close> of sourcing whose qualified companies have the length
  \<^verbatim>\<open>{"toString": 1}\<close> sets the response and completes the step, and the toast raises
  before the socket is closed.
\<close>

theorem completion_events_counterexample:
  "js_prop (JObj [(ustr ''type'', JStr (ustr ''session_complete'')),
                  (ustr ''results'',
                     JObj [(ustr ''Acme'', JObj [(ustr ''overall_result'', JStr (ustr ''SAFE''))])])])
     (ustr ''type'') = JStr (ustr ''session_complete'')
   \<and> truthy (js_prop (JObj [(ustr ''type'', JStr (ustr ''session_complete'')),
                  (ustr ''results'',
                     JObj [(ustr ''Acme'', JObj [(ustr ''overall_result'', JStr (ustr ''SAFE''))])])])
     (ustr ''results''))
   \<and> riskAnalysisResponse (snd (handleAnalyzeRisk_onmessage
        (Parsed (JObj [(ustr ''type'', JStr (ustr ''session_complete'')),
                  (ustr ''results'',
                     JObj [(ustr ''Acme'', JObj [(ustr ''overall_result'', JStr (ustr ''SAFE''))])])]))
        (initial_state [] [] []))) = JNull
   \<and> 2 \<notin> completedSteps (snd (handleAnalyzeRisk_onmessage
        (Parsed (JObj [(ustr ''type'', JStr (ustr ''session_complete'')),
                  (ustr ''results'',
                     JObj [(ustr ''Acme'', JObj [(ustr ''overall_result'', JStr (ustr ''SAFE''))])])]))
        (initial_state [] [] [])))
   \<and> \<not> ws_closed (snd (handleAnalyzeRisk_onmessage
        (Parsed (JObj [(ustr ''type'', JStr (ustr ''session_complete'')),
                  (ustr ''results'',
                     JObj [(ustr ''Acme'', JObj [(ustr ''overall_result'', JStr (ustr ''SAFE''))])])]))
        (initial_state [] [] []))) 2
   \<and> riskAnalysisResponse (snd (handleAnalyzeRisk_onmessage
        (Parsed (JObj [(ustr ''type'', JStr (ustr ''session_complete'')),
                  (ustr ''results'', JArr [JNull])]))
        (initial_state [] [] []))) = JNull
   \<and> 2 \<notin> completedSteps (snd (handleAnalyzeRisk_onmessage
        (Parsed (JObj [(ustr ''type'', JStr (ustr ''session_complete'')),
                  (ustr ''results'', JArr [JNull])]))
        (initial_state [] [] [])))
   \<and> riskAnalysisResponse (snd (handleAnalyzeRisk_onmessage
        (Parsed (JObj [(ustr ''type'', JStr (ustr ''session_complete'')),
                  (ustr ''results'',
                     JArr [JObj [(ustr ''overall_result'', JObj [(ustr ''toString'', num 1)])]])]))
        (initial_state [] [] []))) = JNull
   \<and> 2 \<notin> completedSteps (snd (handleAnalyzeRisk_onmessage
        (Parsed (JObj [(ustr ''type'', JStr (ustr ''session_complete'')),
                  (ustr ''results'',
                     JArr [JObj [(ustr ''overall_result'', JObj [(ustr ''toString'', num 1)])]])]))
        (initial_state [] [] [])))
   \<and> \<not> ws_closed (snd (handleAnalyzeRisk_onmessage
        (Parsed (JObj [(ustr ''type'', JStr (ustr ''session_complete'')),
                  (ustr ''results'',
                     JArr [JObj [(ustr ''overall_result'', JObj [(ustr ''toString'', num 1)])]])]))
        (initial_state [] [] []))) 2
   \<and> 0 \<in> completedSteps (snd (handleSourceCompanies_onmessage
        (Parsed (JObj [(ustr ''type'', JStr (ustr ''analysis_complete'')),
                  (ustr ''result'',
                     JObj [(ustr ''qualified'',
                        JObj [(ustr ''length'', JObj [(ustr ''toString'', num 1)])])])]))
        (initial_state [] [] [])))
   \<and> \<not> ws_closed (snd (handleSourceCompanies_onmessage
        (Parsed (JObj [(ustr ''type'', JStr (ustr ''analysis_complete'')),
                  (ustr ''result'',
                     JObj [(ustr ''qualified'',
                        JObj [(ustr ''length'', JObj [(ustr ''toString'', num 1)])])])]))
        (initial_state [] [] []))) 0
   \<and> fst (handleSourceCompanies_onmessage
        (Parsed (JObj [(ustr ''type'', JStr (ustr ''analysis_complete'')),
                  (ustr ''result'',
                     JObj [(ustr ''qualified'',
                        JObj [(ustr ''length'', JObj [(ustr ''toString'', num 1)])])])]))
        (initial_state [] [] [])) = Some TypeError"
  by (simp add: handleAnalyzeRisk_onmessage_def handleSourceCompanies_onmessage_def Let_def
      append_event_def count_passed_def company_is_safe_def overall_of_def sourced_count_def
      js_or_def js_opt_def initial_state_def ustr_eq_iff)

text \<open>
  C3 (as amended). No \<^verbatim>\<open>onerror\<close> handler closes the socket itself. The handler of
  report generation resets both \<^verbatim>\<open>isSubmitting\<close> and \<^verbatim>\<open>showStreamingPanel\<close>, the handlers
  of sourcing and screening reset \<^verbatim>\<open>showStreamingPanel\<close>. The \<^verbatim>\<open>onclose\<close> handler of every
  step, which the browser runs when the failed connection closes, resets both flags:
  once the error and the close event have been handled, both are false.
\<close>

theorem onerror_then_onclose:
  "ws_closed (handleSourceCompanies_onerror s) = ws_closed s
   \<and> ws_closed (handleScreenCompanies_onerror s) = ws_closed s
   \<and> ws_closed (handleAnalyzeRisk_onerror s) = ws_closed s
   \<and> ws_closed (handleGenerateReport_onerror s) = ws_closed s
   \<and> \<not> isSubmitting (handleGenerateReport_onerror s)
   \<and> \<not> showStreamingPanel (handleGenerateReport_onerror s)
   \<and> \<not> showStreamingPanel (handleSourceCompanies_onerror s)
   \<and> \<not> showStreamingPanel (handleScreenCompanies_onerror s)
   \<and> \<not> isSubmitting (handleSourceCompanies_onclose (handleSourceCompanies_onerror s))
   \<and> \<not> showStreamingPanel (handleSourceCompanies_onclose (handleSourceCompanies_onerror s))
   \<and> \<not> isSubmitting (handleScreenCompanies_onclose (handleScreenCompanies_onerror s))
   \<and> \<not> showStreamingPanel (handleScreenCompanies_onclose (handleScreenCompanies_onerror s))
   \<and> \<not> isSubmitting (handleAnalyzeRisk_onclose (handleAnalyzeRisk_onerror s))
   \<and> \<not> showStreamingPanel (handleAnalyzeRisk_onclose (handleAnalyzeRisk_onerror s))
   \<and> \<not> isSubmitting (handleGenerateReport_onclose (handleGenerateReport_onerror s))
   \<and> \<not> showStreamingPanel (handleGenerateReport_onclose (handleGenerateReport_onerror s))"
  by (simp add: handleSourceCompanies_onerror_def handleScreenCompanies_onerror_def
      handleAnalyzeRisk_onerror_def handleGenerateReport_onerror_def
      handleSourceCompanies_onclose_def handleScreenCompanies_onclose_def
      handleAnalyzeRisk_onclose_def handleGenerateReport_onclose_def)

theorem onerror_then_onclose_witness:
  "\<not> ws_closed (handleGenerateReport_onerror
        ((initial_state [] [] [])\<lparr>isSubmitting := True, showStreamingPanel := True\<rparr>)) 3
   \<and> \<not> isSubmitting (handleGenerateReport_onerror
        ((initial_state [] [] [])\<lparr>isSubmitting := True, showStreamingPanel := True\<rparr>))
   \<and> \<not> isSubmitting (handleAnalyzeRisk_onclose (handleAnalyzeRisk_onerror
        ((initial_state [] [] [])\<lparr>isSubmitting := True, showStreamingPanel := True\<rparr>)))"
  using onerror_then_onclose
    [of "(initial_state [] [] [])\<lparr>isSubmitting := True, showStreamingPanel := True\<rparr>"]
  by (simp add: initial_state_def)

text \<open>
  The property as first stated fails at a state that is submitting with the panel
  shown: after the \<^verbatim>\<open>onerror\<close> handler of sourcing \<^verbatim>\<open>isSubmitting\<close> is still true, after
  that of risk analysis both flags are, and no \<^verbatim>\<open>close()\<close> has been called.
\<close>

theorem onerror_counterexample:
  "isSubmitting (handleSourceCompanies_onerror
        ((initial_state [] [] [])\<lparr>isSubmitting := True, showStreamingPanel := True\<rparr>))
   \<and> \<not> ws_closed (handleSourceCompanies_onerror
        ((initial_state [] [] [])\<lparr>isSubmitting := True, showStreamingPanel := True\<rparr>)) 0
   \<and> isSubmitting (handleAnalyzeRisk_onerror
        ((initial_state [] [] [])\<lparr>isSubmitting := True, showStreamingPanel := True\<rparr>))
   \<and> showStreamingPanel (handleAnalyzeRisk_onerror
        ((initial_state [] [] [])\<lparr>isSubmitting := True, showStreamingPanel := True\<rparr>))
   \<and> \<not> ws_closed (handleAnalyzeRisk_onerror
        ((initial_state [] [] [])\<lparr>isSubmitting := True, showStreamingPanel := True\<rparr>)) 2
   \<and> \<not> ws_closed (handleGenerateReport_onerror
        ((initial_state [] [] [])\<lparr>isSubmitting := True, showStreamingPanel := True\<rparr>)) 3"
  by (simp add: handleSourceCompanies_onerror_def handleAnalyzeRisk_onerror_def
      handleGenerateReport_onerror_def initial_state_def)

text \<open>
  C8. Every message handler appends the event it has parsed at the end of the list of
  its own step in \<^verbatim>\<open>streamedEventsByStep\<close> and leaves the lists of the other steps as
  they are (a message that does not parse changes nothing). So after any run of
  messages the list of a step is what it was before, followed by the events of that
  step's socket in their order of arrival.
\<close>

theorem streamed_events_in_order:
  "streamedEventsByStep (snd (handleSourceCompanies_onmessage (Parsed e) s)) =
     (streamedEventsByStep s)(0 := streamedEventsByStep s 0 @ [e])
   \<and> streamedEventsByStep (snd (handleScreenCompanies_onmessage (Parsed e) s)) =
     (streamedEventsByStep s)(1 := streamedEventsByStep s 1 @ [e])
   \<and> streamedEventsByStep (snd (handleAnalyzeRisk_onmessage (Parsed e) s)) =
     (streamedEventsByStep s)(2 := streamedEventsByStep s 2 @ [e])
   \<and> streamedEventsByStep (snd (handleGenerateReport_onmessage (Parsed e) s)) =
     (streamedEventsByStep s)(3 := streamedEventsByStep s 3 @ [e])
   \<and> snd (handleSourceCompanies_onmessage ParseFailure s) = s
   \<and> snd (handleScreenCompanies_onmessage ParseFailure s) = s
   \<and> snd (handleAnalyzeRisk_onmessage ParseFailure s) = s
   \<and> snd (handleGenerateReport_onmessage ParseFailure s) = s
   \<and> ((\<forall>m\<in>set ms. fst m = 0 \<or> fst m = 1 \<or> fst m = 2 \<or> fst m = 3) \<longrightarrow>
        (\<forall>j. streamedEventsByStep (run_messages ms s) j = streamedEventsByStep s j @ events_of j ms))"
  using sourcing_streamed [of e s] screening_streamed [of e s] risk_streamed [of e s]
    report_streamed [of e s] parse_failure_unchanged [of s] run_messages_streamed [of ms s]
  by blast

theorem streamed_events_in_order_witness:
  "streamedEventsByStep
     (run_messages [(0, Parsed (num 1)), (1, Parsed (num 2)), (0, ParseFailure), (0, Parsed (num 3))]
        (initial_state [] [] [])) 0 = [num 1, num 3]
   \<and> streamedEventsByStep
     (run_messages [(0, Parsed (num 1)), (1, Parsed (num 2)), (0, ParseFailure), (0, Parsed (num 3))]
        (initial_state [] [] [])) 1 = [num 2]"
proof -
  let ?ms = "[(0::int, Parsed (num 1)), (1, Parsed (num 2)), (0, ParseFailure), (0, Parsed (num 3))]"
  have h: "\<forall>m\<in>set ?ms. fst m = 0 \<or> fst m = 1 \<or> fst m = 2 \<or> fst m = 3"
    by simp
  from streamed_events_in_order [of JNull "initial_state [] [] []" ?ms] h
  have "\<forall>j. streamedEventsByStep (run_messages ?ms (initial_state [] [] [])) j
          = streamedEventsByStep (initial_state [] [] []) j @ events_of j ?ms"
    by blast
  then have "streamedEventsByStep (run_messages ?ms (initial_state [] [] [])) 0
          = streamedEventsByStep (initial_state [] [] []) 0 @ events_of 0 ?ms"
    and "streamedEventsByStep (run_messages ?ms (initial_state [] [] [])) 1
          = streamedEventsByStep (initial_state [] [] []) 1 @ events_of 1 ?ms"
    by blast+
  then show ?thesis
    by (simp add: initial_state_def)
qed

section \<open>Aggregating the streamed events: the properties\<close>
































































section \<open>Upload validation: the property\<close>

text \<open>
  C9. \<^verbatim>\<open>validateFile\<close> answers 'Only PDF files are allowed' when the MIME type is not
  'application/pdf'; otherwise 'File size must be less than 10MB' when the size is
  strictly greater than 10*1024*1024 bytes; otherwise \<^verbatim>\<open>null\<close>. So it answers \<^verbatim>\<open>null\<close>
  exactly for the PDF files of at most 10*1024*1024 = 10485760 bytes.
\<close>

theorem validateFile_spec:
  "validateFile f =
     (if file_type f \<noteq> ustr ''application/pdf'' then Some (ustr ''Only PDF files are allowed'')
      else if file_size f > 10 * 1024 * 1024 then Some (ustr ''File size must be less than 10MB'')
      else None)
   \<and> (validateFile f = None \<longleftrightarrow>
        file_type f = ustr ''application/pdf'' \<and> file_size f \<le> 10485760)"
  by (simp add: validateFile_def allowedTypes_def maxSize_def)

theorem validateFile_spec_witness:
  "validateFile \<lparr>file_type = ustr ''application/pdf'', file_size = 10485760\<rparr> = None
   \<and> validateFile \<lparr>file_type = ustr ''application/pdf'', file_size = 10485761\<rparr>
       = Some (ustr ''File size must be less than 10MB'')
   \<and> validateFile \<lparr>file_type = ustr ''image/png'', file_size = 5\<rparr>
       = Some (ustr ''Only PDF files are allowed'')"
  using validateFile_spec [of "\<lparr>file_type = ustr ''application/pdf'', file_size = 10485760\<rparr>"]
    validateFile_spec [of "\<lparr>file_type = ustr ''application/pdf'', file_size = 10485761\<rparr>"]
    validateFile_spec [of "\<lparr>file_type = ustr ''image/png'', file_size = 5\<rparr>"]
  by (simp add: ustr_eq_iff)

section \<open>CSV export: the property\<close>

text \<open>
  C10. For every string, \<^verbatim>\<open>escapeCSV\<close> returns it unchanged when it has no comma, double
  quote or line feed, and otherwise returns it enclosed in double quotes with every
  double quote inside doubled; decoding the escaped field (strip the enclosing quotes,
  collapse the doubled quotes) gives the string back.
\<close>

theorem escapeCSV_roundtrip:
  "(44 \<notin> set s \<and> 34 \<notin> set s \<and> 10 \<notin> set s \<longrightarrow> escapeCSV s = s)
   \<and> (44 \<in> set s \<or> 34 \<in> set s \<or> 10 \<in> set s \<longrightarrow>
        escapeCSV s = [34] @ concat (map (\<lambda>c. if c = 34 then [34, 34] else [c]) s) @ [34])
   \<and> rfc4180_decode_field (escapeCSV s) = s"
proof -
  have plain: "rfc4180_decode_field s = s" if "34 \<notin> set s"
    using that by (cases s) (auto simp: rfc4180_decode_field_def)
  have quoted: "rfc4180_decode_field ([34] @ replace_quotes s @ [34]) = s"
    by (simp add: rfc4180_decode_field_def collapse_replace_quotes)
  show ?thesis
    using plain quoted by (auto simp: escapeCSV_def replace_quotes_def)
qed

theorem escapeCSV_roundtrip_witness:
  "escapeCSV (ustr ''Acme'') = ustr ''Acme''
   \<and> escapeCSV [97, 44, 34, 98] = [34, 97, 44, 34, 34, 98, 34]
   \<and> rfc4180_decode_field (escapeCSV [97, 44, 34, 98]) = [97, 44, 34, 98]"
  using escapeCSV_roundtrip [of "ustr ''Acme''"] escapeCSV_roundtrip [of "[97, 44, 34, 98]"]
  by (simp add: ustr_def rfc4180_decode_field_def)

end
